theory Spec2Isabelle
  imports Main
begin

section \<open>Text helpers: Python's \<open>str(int)\<close> and string tests\<close>

text \<open>
  IR lines and names are Python \<open>str\<close> values; they are modelled as HOL strings and
  all text handled by the compiler is taken to be ASCII. \<open>str_nat\<close> is the decimal
  rendering that an f-string gives a non-negative \<open>int\<close> (counters, labels, temporaries);
  \<open>str_int\<close> adds the sign.
\<close>

definition digit_char :: "nat \<Rightarrow> char" where
  "digit_char d = ''0123456789'' ! d"

fun str_nat :: "nat \<Rightarrow> string" where
  "str_nat n = (if n < 10 then [digit_char n] else str_nat (n div 10) @ [digit_char (n mod 10)])"

declare str_nat.simps [simp del]

definition str_int :: "int \<Rightarrow> string" where
  "str_int i = (if i < 0 then CHR ''-'' # str_nat (nat (- i)) else str_nat (nat i))"

definition is_digit :: "char \<Rightarrow> bool" where
  "is_digit c = (c \<in> set ''0123456789'')"

definition digit_val :: "char \<Rightarrow> nat" where
  "digit_val c = of_char c - 48"

definition nat_of_digits :: "string \<Rightarrow> nat" where
  "nat_of_digits ds = foldl (\<lambda>a c. 10 * a + digit_val c) 0 ds"

section \<open>Symbol table (symbol\_table.py)\<close>

datatype sym_kind = Var | Proc | Func | Param

text \<open>
  \<open>SymbolInfo\<close>. The \<open>extra\<close> dictionary is always created empty and never read,
  so it carries no field here. \<open>node_id\<close> is the integer the source derives from the
  declaring node (\<open>0\<close> when no node is given).
\<close>

record symbol_info =
  si_name :: string
  si_kind :: sym_kind
  decl_type :: "string option"
  scope_level :: nat
  unique_name :: string
  node_id :: nat

text \<open>
  \<open>SymbolTable\<close>. A scope dictionary keeps insertion order and is an association
  list; the stack grows at the end of the list, as the Python list does
  (\<open>_scopes[-1]\<close> is the current scope, \<open>_scopes[0]\<close> the first one pushed).
\<close>

record symtab =
  scopes :: "(string \<times> symbol_info) list list"
  scope_meta :: "(string \<times> nat) list"
  name_counters :: "string \<rightharpoonup> nat"
  global_procs :: "string \<rightharpoonup> symbol_info"
  global_funcs :: "string \<rightharpoonup> symbol_info"
  unique_prefix :: string

datatype st_error =
    NoScopeToExit
  | NoScopeToDeclare
  | DuplicateDeclaration string
  | NameClashes "string list" "string list" "string list"
  | ParamShadowing "string list"

definition SymbolTable :: "string \<Rightarrow> symtab" where
  "SymbolTable base_unique_prefix =
     \<lparr>scopes = [], scope_meta = [], name_counters = Map.empty,
      global_procs = Map.empty, global_funcs = Map.empty,
      unique_prefix = base_unique_prefix\<rparr>"

definition enter_scope :: "string \<Rightarrow> nat \<Rightarrow> symtab \<Rightarrow> symtab" where
  "enter_scope scope_kind nid st =
     st\<lparr>scopes := scopes st @ [[]], scope_meta := scope_meta st @ [(scope_kind, nid)]\<rparr>"

definition exit_scope :: "symtab \<Rightarrow> st_error + symtab" where
  "exit_scope st =
     (if scopes st = [] then Inl NoScopeToExit
      else Inr (st\<lparr>scopes := butlast (scopes st), scope_meta := butlast (scope_meta st)\<rparr>))"

definition current_scope_level :: "symtab \<Rightarrow> nat" where
  "current_scope_level st = length (scopes st)"

definition mk_unique :: "string \<Rightarrow> string \<Rightarrow> nat \<Rightarrow> string" where
  "mk_unique pre base_name c = pre @ ''_'' @ base_name @ ''_'' @ str_nat c"

definition gen_unique_name :: "string \<Rightarrow> symtab \<Rightarrow> string \<times> symtab" where
  "gen_unique_name base_name st =
     (let c = (case name_counters st base_name of None \<Rightarrow> 0 | Some k \<Rightarrow> k) + 1
      in (mk_unique (unique_prefix st) base_name c,
          st\<lparr>name_counters := (name_counters st)(base_name \<mapsto> c)\<rparr>))"

definition declare_sym :: "string \<Rightarrow> sym_kind \<Rightarrow> string option \<Rightarrow> nat \<Rightarrow> symtab
    \<Rightarrow> st_error + (symbol_info \<times> symtab)" where
  "declare_sym nm k dt nid st =
     (if scopes st = [] then Inl NoScopeToDeclare
      else let curr = last (scopes st) in
        if nm \<in> fst ` set curr then Inl (DuplicateDeclaration nm)
        else
          let lvl = length (scopes st);
              (u, st1) = gen_unique_name nm st;
              info = \<lparr>si_name = nm, si_kind = k, decl_type = dt, scope_level = lvl,
                      unique_name = u, node_id = nid\<rparr>;
              st2 = st1\<lparr>scopes := butlast (scopes st1) @ [curr @ [(nm, info)]]\<rparr>;
              st3 = (if lvl = 1 \<and> k = Proc
                     then st2\<lparr>global_procs := (global_procs st2)(nm \<mapsto> info)\<rparr> else st2);
              st4 = (if lvl = 1 \<and> k = Func
                     then st3\<lparr>global_funcs := (global_funcs st3)(nm \<mapsto> info)\<rparr> else st3)
          in Inr (info, st4))"

definition declare_var :: "string \<Rightarrow> nat \<Rightarrow> string \<Rightarrow> symtab \<Rightarrow> st_error + (symbol_info \<times> symtab)" where
  "declare_var nm nid dt st = declare_sym nm Var (Some dt) nid st"

definition declare_param :: "string \<Rightarrow> nat \<Rightarrow> string \<Rightarrow> symtab \<Rightarrow> st_error + (symbol_info \<times> symtab)" where
  "declare_param nm nid dt st = declare_sym nm Param (Some dt) nid st"

definition declare_proc :: "string \<Rightarrow> nat \<Rightarrow> symtab \<Rightarrow> st_error + (symbol_info \<times> symtab)" where
  "declare_proc nm nid st = declare_sym nm Proc None nid st"

definition declare_func :: "string \<Rightarrow> nat \<Rightarrow> symtab \<Rightarrow> st_error + (symbol_info \<times> symtab)" where
  "declare_func nm nid st = declare_sym nm Func None nid st"

fun lookup_scopes :: "(string \<times> symbol_info) list list \<Rightarrow> string \<Rightarrow> symbol_info option" where
  "lookup_scopes [] nm = None"
| "lookup_scopes (sc # rest) nm =
     (case map_of sc nm of Some info \<Rightarrow> Some info | None \<Rightarrow> lookup_scopes rest nm)"

definition lookup :: "symtab \<Rightarrow> string \<Rightarrow> symbol_info option" where
  "lookup st nm = lookup_scopes (rev (scopes st)) nm"

definition names_of_kind :: "sym_kind \<Rightarrow> (string \<times> symbol_info) list \<Rightarrow> string list" where
  "names_of_kind k sc = map fst (filter (\<lambda>(n, si). si_kind si = k) sc)"

definition inter_list :: "string list \<Rightarrow> string list \<Rightarrow> string list" where
  "inter_list xs ys = filter (\<lambda>x. x \<in> set ys) xs"

text \<open>
  \<open>check_no_global_name_clashes\<close> reads \<open>_scopes[0]\<close>. The message of the source joins
  up to three parts, one per non-empty intersection; the error value keeps the three
  intersections (variable/function, variable/procedure, function/procedure).
\<close>

definition check_no_global_name_clashes :: "symtab \<Rightarrow> st_error + unit" where
  "check_no_global_name_clashes st =
     (if length (scopes st) < 1 then Inr ()
      else
        let global_scope = hd (scopes st);
            vars = names_of_kind Var global_scope;
            procs = names_of_kind Proc global_scope;
            funcs = names_of_kind Func global_scope;
            vf = inter_list vars funcs;
            vp = inter_list vars procs;
            fp = inter_list funcs procs
        in if vf = [] \<and> vp = [] \<and> fp = [] then Inr () else Inl (NameClashes vf vp fp))"

definition check_no_shadowing_of_params :: "string list \<Rightarrow> string list \<Rightarrow> st_error + unit" where
  "check_no_shadowing_of_params param_names local_names =
     (let shadow = inter_list (remdups param_names) local_names
      in if shadow \<noteq> [] then Inl (ParamShadowing shadow) else Inr ())"

text \<open>
  A client of the table: any sequence of scope pushes, scope pops and declarations.
  An operation that raises leaves the table as it was (every \<open>raise\<close> of the source
  comes before the first mutation), and the client goes on with the next operation.
  \<open>run_ops\<close> collects the \<open>SymbolInfo\<close> records that the successful declarations
  return, in order.
\<close>

datatype st_op = EnterScope string nat | ExitScope | Declare string sym_kind "string option" nat

fun run_ops :: "symtab \<Rightarrow> st_op list \<Rightarrow> symbol_info list" where
  "run_ops st [] = []"
| "run_ops st (EnterScope k nid # ops) = run_ops (enter_scope k nid st) ops"
| "run_ops st (ExitScope # ops) =
     (case exit_scope st of Inl e \<Rightarrow> run_ops st ops | Inr st' \<Rightarrow> run_ops st' ops)"
| "run_ops st (Declare nm k dt nid # ops) =
     (case declare_sym nm k dt nid st of
        Inl e \<Rightarrow> run_ops st ops
      | Inr (info, st') \<Rightarrow> info # run_ops st' ops)"

definition counter_of :: "symtab \<Rightarrow> string \<Rightarrow> nat" where
  "counter_of st b = (case name_counters st b of None \<Rightarrow> 0 | Some k \<Rightarrow> k)"

section \<open>Abstract syntax (ast\_nodes.py)\<close>

text \<open>
  The tree the parser builds. Where the analyzer and the code generator key a table by
  the identity of a node (\<open>id(node)\<close>) or store an attribute on it, the node carries its
  address as a number. \<open>TermAtom a\<close> is \<open>TermNode(value=a)\<close> and \<open>TermParen p\<close> is
  \<open>TermNode(value=ParenTermNode(term=p))\<close>; an \<open>AlgorithmNode\<close> is its list of
  instructions. Operators are the strings the parser writes
  (\<open>neg not plus minus mult div eq > and or\<close>).
\<close>

datatype var_node = VarNode (vid: nat) (vname: string)

datatype atom_value = VarValue var_node | IntValue int

datatype atom_node = AtomNode (aid: nat) (avalue: atom_value)

datatype term_node = TermAtom atom_node | TermParen op_node
and op_node =
    UnaryOperationNode nat string term_node
  | BinaryOperationNode nat term_node string term_node

datatype rhs_node =
    RhsAtom atom_node
  | FunctionCallNode nat var_node "atom_node list"
  | RhsParen op_node

datatype print_output = OutString string | OutAtom atom_node

datatype instr =
    HaltNode
  | PrintNode print_output
  | AssignmentNode var_node rhs_node
  | ProcedureCallNode var_node "atom_node list"
  | WhileLoopNode term_node "instr list"
  | DoUntilLoopNode "instr list" term_node
  | IfBranchNode term_node "instr list" "instr list option"

record proc_def =
  proc_id :: nat
  proc_name :: var_node
  proc_params :: "var_node list"
  proc_locals :: "var_node list"
  proc_algorithm :: "instr list"

record func_def =
  func_id :: nat
  func_name :: var_node
  func_params :: "var_node list"
  func_locals :: "var_node list"
  func_algorithm :: "instr list"
  return_atom :: atom_node

record main_prog =
  main_id :: nat
  main_locals :: "var_node list"
  main_algorithm :: "instr list"

record program =
  prog_id :: nat
  prog_globals :: "var_node list"
  prog_procs :: "proc_def list"
  prog_funcs :: "func_def list"
  prog_main :: main_prog

section \<open>Semantic analyzer (semantic\_analyzer.py)\<close>

datatype ty = Numeric | Boolean

text \<open>
  One constructor per \<open>raise SemanticError\<close> of the source. Four of them wrap a
  symbol-table error: \<open>DeclarationError\<close> is \<open>SemanticError(str(e))\<close> around a
  declaration, \<open>GlobalScopeViolation\<close> and \<open>ShadowingError\<close> are the two prefixed
  re-raises, and \<open>SymbolTableFailure\<close> is the handler in \<open>analyze\<close>. The branches of
  the source that reject a node of a class the tree cannot hold are excluded by the
  datatypes above.
\<close>

datatype sem_error =
    DeclarationError st_error
  | GlobalScopeViolation st_error
  | ShadowingError st_error
  | SymbolTableFailure st_error
  | DuplicateVariableDeclaration string
  | DuplicateProcedureDeclaration string
  | DuplicateFunctionDeclaration string
  | DuplicateParameter string
  | DuplicateLocalVariable string
  | NonNumericReturn string ty
  | UndefinedVariableInAssignment string
  | AssignToNonNumeric string
  | AssignmentTypeMismatch string ty
  | UndefinedVariable string
  | UndefinedFunction string
  | NotAFunction string sym_kind
  | UndefinedProcedure string
  | NotAProcedure string sym_kind
  | OperandTypeMismatch string string ty
  | UnknownUnaryOperator string
  | UnknownBinaryOperator string
  | NonBooleanCondition string ty

text \<open>
  The analyzer's state: its symbol table, the type table keyed by node address, and
  \<open>annot\<close>, the \<open>symbol_info\<close> attribute that the analyzer writes on \<open>VarNode\<close>s, as a
  store keyed by the node's address. The \<open>errors\<close> list of the source is never
  appended to and the scope history is only printed; neither is kept.
\<close>

record an_state =
  symbol_table :: symtab
  node_types :: "nat \<rightharpoonup> ty"
  annot :: "nat \<rightharpoonup> symbol_info"
  current_function_name :: "string option"

definition SemanticAnalyzer :: an_state where
  "SemanticAnalyzer =
     \<lparr>symbol_table = SymbolTable ''v'', node_types = Map.empty, annot = Map.empty,
      current_function_name = None\<rparr>"

definition set_node_type :: "nat \<Rightarrow> ty \<Rightarrow> an_state \<Rightarrow> an_state" where
  "set_node_type n t s = s\<lparr>node_types := (node_types s)(n \<mapsto> t)\<rparr>"

definition set_symbol_info :: "nat \<Rightarrow> symbol_info \<Rightarrow> an_state \<Rightarrow> an_state" where
  "set_symbol_info n info s = s\<lparr>annot := (annot s)(n \<mapsto> info)\<rparr>"

definition an_declare ::
  "(symtab \<Rightarrow> st_error + (symbol_info \<times> symtab)) \<Rightarrow> an_state \<Rightarrow> sem_error + an_state" where
  "an_declare d s =
     (case d (symbol_table s) of
        Inl e \<Rightarrow> Inl (DeclarationError e)
      | Inr (info, st') \<Rightarrow> Inr (s\<lparr>symbol_table := st'\<rparr>))"

definition an_enter_scope :: "string \<Rightarrow> nat \<Rightarrow> an_state \<Rightarrow> an_state" where
  "an_enter_scope k n s = s\<lparr>symbol_table := enter_scope k n (symbol_table s)\<rparr>"

definition an_exit_scope :: "an_state \<Rightarrow> sem_error + an_state" where
  "an_exit_scope s =
     (case exit_scope (symbol_table s) of
        Inl e \<Rightarrow> Inl (SymbolTableFailure e)
      | Inr st' \<Rightarrow> Inr (s\<lparr>symbol_table := st'\<rparr>))"

fun visit_variable_decls_from :: "string list \<Rightarrow> var_node list \<Rightarrow> an_state \<Rightarrow> sem_error + an_state" where
  "visit_variable_decls_from seen_names [] s = Inr s"
| "visit_variable_decls_from seen_names (VarNode n var_name # vs) s =
     (if var_name \<in> set seen_names then Inl (DuplicateVariableDeclaration var_name)
      else case an_declare (declare_var var_name n ''numeric'') s of
             Inl e \<Rightarrow> Inl e
           | Inr s' \<Rightarrow> visit_variable_decls_from (seen_names @ [var_name]) vs s')"

definition visit_variable_decls :: "var_node list \<Rightarrow> an_state \<Rightarrow> sem_error + an_state" where
  "visit_variable_decls vs s = visit_variable_decls_from [] vs s"

fun declare_procedures_from :: "string list \<Rightarrow> proc_def list \<Rightarrow> an_state \<Rightarrow> sem_error + an_state" where
  "declare_procedures_from seen_names [] s = Inr s"
| "declare_procedures_from seen_names (pd # pds) s =
     (let pn = vname (proc_name pd) in
      if pn \<in> set seen_names then Inl (DuplicateProcedureDeclaration pn)
      else case an_declare (declare_proc pn (proc_id pd)) s of
             Inl e \<Rightarrow> Inl e
           | Inr s' \<Rightarrow> declare_procedures_from (seen_names @ [pn]) pds s')"

definition declare_procedures :: "proc_def list \<Rightarrow> an_state \<Rightarrow> sem_error + an_state" where
  "declare_procedures pds s = declare_procedures_from [] pds s"

fun declare_functions_from :: "string list \<Rightarrow> func_def list \<Rightarrow> an_state \<Rightarrow> sem_error + an_state" where
  "declare_functions_from seen_names [] s = Inr s"
| "declare_functions_from seen_names (fd # fds) s =
     (let fn = vname (func_name fd) in
      if fn \<in> set seen_names then Inl (DuplicateFunctionDeclaration fn)
      else case an_declare (declare_func fn (func_id fd)) s of
             Inl e \<Rightarrow> Inl e
           | Inr s' \<Rightarrow> declare_functions_from (seen_names @ [fn]) fds s')"

definition declare_functions :: "func_def list \<Rightarrow> an_state \<Rightarrow> sem_error + an_state" where
  "declare_functions fds s = declare_functions_from [] fds s"

fun visit_parameters_from ::
  "string list \<Rightarrow> var_node list \<Rightarrow> an_state \<Rightarrow> sem_error + (string list \<times> an_state)" where
  "visit_parameters_from param_names [] s = Inr (param_names, s)"
| "visit_parameters_from param_names (VarNode n param_name # vs) s =
     (if param_name \<in> set param_names then Inl (DuplicateParameter param_name)
      else case an_declare (declare_param param_name n ''numeric'') s of
             Inl e \<Rightarrow> Inl e
           | Inr s' \<Rightarrow> visit_parameters_from (param_names @ [param_name]) vs s')"

definition visit_parameters :: "var_node list \<Rightarrow> an_state \<Rightarrow> sem_error + (string list \<times> an_state)" where
  "visit_parameters vs s = visit_parameters_from [] vs s"

fun declare_locals_from ::
  "string list \<Rightarrow> var_node list \<Rightarrow> an_state \<Rightarrow> sem_error + (string list \<times> an_state)" where
  "declare_locals_from local_names [] s = Inr (local_names, s)"
| "declare_locals_from local_names (VarNode n local_name # vs) s =
     (if local_name \<in> set local_names then Inl (DuplicateLocalVariable local_name)
      else case an_declare (declare_var local_name n ''numeric'') s of
             Inl e \<Rightarrow> Inl e
           | Inr s' \<Rightarrow> declare_locals_from (local_names @ [local_name]) vs s')"

definition visit_atom :: "atom_node \<Rightarrow> an_state \<Rightarrow> sem_error + (ty \<times> an_state)" where
  "visit_atom node s =
     (case avalue node of
        IntValue i \<Rightarrow> Inr (Numeric, set_node_type (aid node) Numeric s)
      | VarValue var \<Rightarrow>
          (case lookup (symbol_table s) (vname var) of
             None \<Rightarrow> Inl (UndefinedVariable (vname var))
           | Some var_info \<Rightarrow>
               Inr (Numeric, set_node_type (aid node) Numeric (set_symbol_info (vid var) var_info s))))"

fun visit_input :: "atom_node list \<Rightarrow> an_state \<Rightarrow> sem_error + an_state" where
  "visit_input [] s = Inr s"
| "visit_input (arg # args) s =
     (case visit_atom arg s of Inl e \<Rightarrow> Inl e | Inr (t, s') \<Rightarrow> visit_input args s')"

definition visit_function_call ::
  "nat \<Rightarrow> var_node \<Rightarrow> atom_node list \<Rightarrow> an_state \<Rightarrow> sem_error + (ty \<times> an_state)" where
  "visit_function_call n func_node arguments s =
     (case lookup (symbol_table s) (vname func_node) of
        None \<Rightarrow> Inl (UndefinedFunction (vname func_node))
      | Some func_info \<Rightarrow>
          if si_kind func_info \<noteq> Func then Inl (NotAFunction (vname func_node) (si_kind func_info))
          else case visit_input arguments (set_symbol_info (vid func_node) func_info s) of
                 Inl e \<Rightarrow> Inl e
               | Inr s' \<Rightarrow> Inr (Numeric, set_node_type n Numeric s'))"

definition visit_procedure_call :: "var_node \<Rightarrow> atom_node list \<Rightarrow> an_state \<Rightarrow> sem_error + an_state" where
  "visit_procedure_call proc_node arguments s =
     (case lookup (symbol_table s) (vname proc_node) of
        None \<Rightarrow> Inl (UndefinedProcedure (vname proc_node))
      | Some proc_info \<Rightarrow>
          if si_kind proc_info \<noteq> Proc then Inl (NotAProcedure (vname proc_node) (si_kind proc_info))
          else visit_input arguments (set_symbol_info (vid proc_node) proc_info s))"

definition check_unary :: "nat \<Rightarrow> string \<Rightarrow> ty \<Rightarrow> an_state \<Rightarrow> sem_error + (ty \<times> an_state)" where
  "check_unary n operator operand_type s =
     (if operator = ''neg'' then
        (if operand_type \<noteq> Numeric then Inl (OperandTypeMismatch ''neg'' '''' operand_type)
         else Inr (Numeric, set_node_type n Numeric s))
      else if operator = ''not'' then
        (if operand_type \<noteq> Boolean then Inl (OperandTypeMismatch ''not'' '''' operand_type)
         else Inr (Boolean, set_node_type n Boolean s))
      else Inl (UnknownUnaryOperator operator))"

definition check_binary :: "nat \<Rightarrow> string \<Rightarrow> ty \<Rightarrow> ty \<Rightarrow> an_state \<Rightarrow> sem_error + (ty \<times> an_state)" where
  "check_binary n operator left_type right_type s =
     (if operator \<in> set [''plus'', ''minus'', ''mult'', ''div''] then
        (if left_type \<noteq> Numeric then Inl (OperandTypeMismatch operator ''left'' left_type)
         else if right_type \<noteq> Numeric then Inl (OperandTypeMismatch operator ''right'' right_type)
         else Inr (Numeric, set_node_type n Numeric s))
      else if operator \<in> set [''eq'', ''>''] then
        (if left_type \<noteq> Numeric then Inl (OperandTypeMismatch operator ''left'' left_type)
         else if right_type \<noteq> Numeric then Inl (OperandTypeMismatch operator ''right'' right_type)
         else Inr (Boolean, set_node_type n Boolean s))
      else if operator \<in> set [''and'', ''or''] then
        (if left_type \<noteq> Boolean then Inl (OperandTypeMismatch operator ''left'' left_type)
         else if right_type \<noteq> Boolean then Inl (OperandTypeMismatch operator ''right'' right_type)
         else Inr (Boolean, set_node_type n Boolean s))
      else Inl (UnknownBinaryOperator operator))"

text \<open>
  \<open>_visit_term\<close>, \<open>_visit_paren_term\<close>, \<open>_visit_unary_op\<close> and \<open>_visit_binary_op\<close>:
  the operands are visited first, then \<open>check_unary\<close> / \<open>check_binary\<close> hold the
  operator's type rule.
\<close>

fun visit_term :: "term_node \<Rightarrow> an_state \<Rightarrow> sem_error + (ty \<times> an_state)"
and visit_paren_term :: "op_node \<Rightarrow> an_state \<Rightarrow> sem_error + (ty \<times> an_state)" where
  "visit_term (TermAtom a) s = visit_atom a s"
| "visit_term (TermParen p) s = visit_paren_term p s"
| "visit_paren_term (UnaryOperationNode n operator operand) s =
     (case visit_term operand s of
        Inl e \<Rightarrow> Inl e
      | Inr (operand_type, s1) \<Rightarrow> check_unary n operator operand_type s1)"
| "visit_paren_term (BinaryOperationNode n left_operand operator right_operand) s =
     (case visit_term left_operand s of
        Inl e \<Rightarrow> Inl e
      | Inr (left_type, s1) \<Rightarrow>
          (case visit_term right_operand s1 of
             Inl e \<Rightarrow> Inl e
           | Inr (right_type, s2) \<Rightarrow> check_binary n operator left_type right_type s2))"

fun visit_rhs :: "rhs_node \<Rightarrow> an_state \<Rightarrow> sem_error + (ty \<times> an_state)" where
  "visit_rhs (RhsAtom a) s = visit_atom a s"
| "visit_rhs (FunctionCallNode n f args) s = visit_function_call n f args s"
| "visit_rhs (RhsParen p) s = visit_paren_term p s"

definition visit_assignment :: "var_node \<Rightarrow> rhs_node \<Rightarrow> an_state \<Rightarrow> sem_error + an_state" where
  "visit_assignment var rhs s =
     (case lookup (symbol_table s) (vname var) of
        None \<Rightarrow> Inl (UndefinedVariableInAssignment (vname var))
      | Some var_info \<Rightarrow>
          if decl_type var_info \<noteq> Some ''numeric'' then Inl (AssignToNonNumeric (vname var))
          else case visit_rhs rhs (set_symbol_info (vid var) var_info s) of
                 Inl e \<Rightarrow> Inl e
               | Inr (rhs_type, s') \<Rightarrow>
                   if rhs_type \<noteq> Numeric then Inl (AssignmentTypeMismatch (vname var) rhs_type)
                   else Inr s')"

definition visit_print :: "print_output \<Rightarrow> an_state \<Rightarrow> sem_error + an_state" where
  "visit_print out s =
     (case out of
        OutString str \<Rightarrow> Inr s
      | OutAtom a \<Rightarrow> (case visit_atom a s of Inl e \<Rightarrow> Inl e | Inr (t, s') \<Rightarrow> Inr s'))"

definition check_condition :: "string \<Rightarrow> ty \<Rightarrow> an_state \<Rightarrow> sem_error + an_state" where
  "check_condition construct condition_type s =
     (if condition_type \<noteq> Boolean then Inl (NonBooleanCondition construct condition_type)
      else Inr s)"

fun visit_instruction :: "instr \<Rightarrow> an_state \<Rightarrow> sem_error + an_state"
and visit_algorithm :: "instr list \<Rightarrow> an_state \<Rightarrow> sem_error + an_state" where
  "visit_instruction HaltNode s = Inr s"
| "visit_instruction (PrintNode out) s = visit_print out s"
| "visit_instruction (AssignmentNode var rhs) s = visit_assignment var rhs s"
| "visit_instruction (ProcedureCallNode p args) s = visit_procedure_call p args s"
| "visit_instruction (WhileLoopNode condition body) s =
     (case visit_term condition s of
        Inl e \<Rightarrow> Inl e
      | Inr (condition_type, s1) \<Rightarrow>
          (case check_condition ''While'' condition_type s1 of
             Inl e \<Rightarrow> Inl e
           | Inr s2 \<Rightarrow> visit_algorithm body s2))"
| "visit_instruction (DoUntilLoopNode body condition) s =
     (case visit_algorithm body s of
        Inl e \<Rightarrow> Inl e
      | Inr s1 \<Rightarrow>
          (case visit_term condition s1 of
             Inl e \<Rightarrow> Inl e
           | Inr (condition_type, s2) \<Rightarrow> check_condition ''Do-until'' condition_type s2))"
| "visit_instruction (IfBranchNode condition then_branch else_branch) s =
     (case visit_term condition s of
        Inl e \<Rightarrow> Inl e
      | Inr (condition_type, s1) \<Rightarrow>
          (case check_condition ''If'' condition_type s1 of
             Inl e \<Rightarrow> Inl e
           | Inr s2 \<Rightarrow>
               (case visit_algorithm then_branch s2 of
                  Inl e \<Rightarrow> Inl e
                | Inr s3 \<Rightarrow>
                    (case else_branch of
                       None \<Rightarrow> Inr s3
                     | Some eb \<Rightarrow> visit_algorithm eb s3))))"
| "visit_algorithm [] s = Inr s"
| "visit_algorithm (i # is) s =
     (case visit_instruction i s of Inl e \<Rightarrow> Inl e | Inr s' \<Rightarrow> visit_algorithm is s')"

definition visit_body ::
  "var_node list \<Rightarrow> instr list \<Rightarrow> string list \<Rightarrow> an_state \<Rightarrow> sem_error + (string list \<times> an_state)" where
  "visit_body locals algorithm param_names s =
     (case declare_locals_from [] locals s of
        Inl e \<Rightarrow> Inl e
      | Inr (local_names, s1) \<Rightarrow>
          (case check_no_shadowing_of_params param_names local_names of
             Inl e \<Rightarrow> Inl (ShadowingError e)
           | Inr u \<Rightarrow>
               (case visit_algorithm algorithm s1 of
                  Inl e \<Rightarrow> Inl e
                | Inr s2 \<Rightarrow> Inr (local_names, s2))))"

definition visit_procedure_def :: "proc_def \<Rightarrow> an_state \<Rightarrow> sem_error + an_state" where
  "visit_procedure_def node s =
     (case visit_parameters (proc_params node) (an_enter_scope ''Procedure'' (proc_id node) s) of
        Inl e \<Rightarrow> Inl e
      | Inr (param_names, s1) \<Rightarrow>
          (case visit_body (proc_locals node) (proc_algorithm node) param_names s1 of
             Inl e \<Rightarrow> Inl e
           | Inr (local_names, s2) \<Rightarrow> an_exit_scope s2))"

fun visit_procedure_defs :: "proc_def list \<Rightarrow> an_state \<Rightarrow> sem_error + an_state" where
  "visit_procedure_defs [] s = Inr s"
| "visit_procedure_defs (pd # pds) s =
     (case visit_procedure_def pd s of Inl e \<Rightarrow> Inl e | Inr s' \<Rightarrow> visit_procedure_defs pds s')"

definition visit_function_def :: "func_def \<Rightarrow> an_state \<Rightarrow> sem_error + an_state" where
  "visit_function_def node s =
     (let fn = vname (func_name node);
          s0 = an_enter_scope ''Function'' (func_id node) (s\<lparr>current_function_name := Some fn\<rparr>)
      in case visit_parameters (func_params node) s0 of
        Inl e \<Rightarrow> Inl e
      | Inr (param_names, s1) \<Rightarrow>
          (case visit_body (func_locals node) (func_algorithm node) param_names s1 of
             Inl e \<Rightarrow> Inl e
           | Inr (local_names, s2) \<Rightarrow>
               (case visit_atom (return_atom node) s2 of
                  Inl e \<Rightarrow> Inl e
                | Inr (return_type, s3) \<Rightarrow>
                    if return_type \<noteq> Numeric then Inl (NonNumericReturn fn return_type)
                    else (case an_exit_scope s3 of
                            Inl e \<Rightarrow> Inl e
                          | Inr s4 \<Rightarrow> Inr (s4\<lparr>current_function_name := None\<rparr>)))))"

fun visit_function_defs :: "func_def list \<Rightarrow> an_state \<Rightarrow> sem_error + an_state" where
  "visit_function_defs [] s = Inr s"
| "visit_function_defs (fd # fds) s =
     (case visit_function_def fd s of Inl e \<Rightarrow> Inl e | Inr s' \<Rightarrow> visit_function_defs fds s')"

definition visit_main_prog :: "main_prog \<Rightarrow> an_state \<Rightarrow> sem_error + an_state" where
  "visit_main_prog node s =
     (case visit_variable_decls (main_locals node) (an_enter_scope ''Main'' (main_id node) s) of
        Inl e \<Rightarrow> Inl e
      | Inr s1 \<Rightarrow>
          (case visit_algorithm (main_algorithm node) s1 of
             Inl e \<Rightarrow> Inl e
           | Inr s2 \<Rightarrow> an_exit_scope s2))"

text \<open>
  The global phase of \<open>_visit_program\<close>, steps 1 to 3: when no scope is open yet the
  source pushes a scope named Global and then, unconditionally, a second one; the
  globals, the procedure signatures and the function signatures are declared into the
  scope that is current, the last one pushed.
\<close>

definition global_phase :: "program \<Rightarrow> an_state \<Rightarrow> sem_error + an_state" where
  "global_phase node s =
     (let is_toplevel_call = (current_scope_level (symbol_table s) = 0);
          s0 = (if is_toplevel_call then an_enter_scope ''Global'' (prog_id node) s else s);
          s1 = an_enter_scope ''Global'' (prog_id node) s0
      in case visit_variable_decls (prog_globals node) s1 of
        Inl e \<Rightarrow> Inl e
      | Inr s2 \<Rightarrow>
          (case declare_procedures (prog_procs node) s2 of
             Inl e \<Rightarrow> Inl e
           | Inr s3 \<Rightarrow> declare_functions (prog_funcs node) s3))"

definition visit_program :: "program \<Rightarrow> an_state \<Rightarrow> sem_error + an_state" where
  "visit_program node s =
     (case global_phase node s of
        Inl e \<Rightarrow> Inl e
      | Inr s4 \<Rightarrow>
          (case check_no_global_name_clashes (symbol_table s4) of
             Inl e \<Rightarrow> Inl (GlobalScopeViolation e)
           | Inr u \<Rightarrow>
               (case visit_procedure_defs (prog_procs node) s4 of
                  Inl e \<Rightarrow> Inl e
                | Inr s5 \<Rightarrow>
                    (case visit_function_defs (prog_funcs node) s5 of
                       Inl e \<Rightarrow> Inl e
                     | Inr s6 \<Rightarrow>
                         (case visit_main_prog (prog_main node) s6 of
                            Inl e \<Rightarrow> Inl e
                          | Inr s7 \<Rightarrow> an_exit_scope s7)))))"

text \<open>
  \<open>analyze\<close> on a fresh analyzer. The source returns the symbol table; the state
  returned here also holds the type table and the annotations that the code generator
  is then given.
\<close>

definition analyze :: "program \<Rightarrow> sem_error + an_state" where
  "analyze ast = visit_program ast SemanticAnalyzer"

section \<open>Code generator (code\_gen.py)\<close>

text \<open>
  One constructor per \<open>raise CodeGenError\<close> that a tree of the datatypes above can
  reach.
\<close>

datatype cg_error =
    NotOutsideCondition
  | CgUnknownUnaryOperator string
  | LogicalOutsideCondition string
  | MisplacedBinaryOperator string
  | ArithmeticAsCondition string
  | UnexpectedNodeInCondition
  | ProcedureLacksAnnotation string
  | FunctionLacksAnnotation string
  | VarLacksAnnotation string

record cg_state =
  ir_code :: "string list"
  temp_counter :: nat
  label_counter :: nat

definition CodeGenerator :: cg_state where
  "CodeGenerator = \<lparr>ir_code = [], temp_counter = 0, label_counter = 0\<rparr>"

definition new_temp :: "cg_state \<Rightarrow> string \<times> cg_state" where
  "new_temp g = (''t'' @ str_nat (temp_counter g + 1), g\<lparr>temp_counter := temp_counter g + 1\<rparr>)"

definition new_label :: "cg_state \<Rightarrow> string \<times> cg_state" where
  "new_label g = (''L'' @ str_nat (label_counter g + 1), g\<lparr>label_counter := label_counter g + 1\<rparr>)"

definition emit :: "string \<Rightarrow> cg_state \<Rightarrow> cg_state" where
  "emit instruction g = g\<lparr>ir_code := ir_code g @ [instruction]\<rparr>"

fun join_str :: "string \<Rightarrow> string list \<Rightarrow> string" where
  "join_str sep [] = []"
| "join_str sep [x] = x"
| "join_str sep (x # y # ys) = x @ sep @ join_str sep (y # ys)"

definition op_map :: "(string \<times> string) list" where
  "op_map = [(''plus'', ''+''), (''minus'', ''-''), (''mult'', ''*''), (''div'', ''/''),
             (''eq'', ''=''), (''>'', ''>'')]"

text \<open>
  The visitors take the analyzer's type table \<open>nt\<close> and annotation store \<open>an\<close> and
  thread the generator state; a visitor of an expression returns its place.
\<close>

definition cg_visit_VarNode :: "(nat \<rightharpoonup> symbol_info) \<Rightarrow> var_node \<Rightarrow> cg_error + string" where
  "cg_visit_VarNode an node =
     (case an (vid node) of
        None \<Rightarrow> Inl (VarLacksAnnotation (vname node))
      | Some info \<Rightarrow> Inr (unique_name info))"

definition cg_visit_AtomNode ::
  "(nat \<rightharpoonup> symbol_info) \<Rightarrow> atom_node \<Rightarrow> cg_state \<Rightarrow> cg_error + (string \<times> cg_state)" where
  "cg_visit_AtomNode an node g =
     (case avalue node of
        VarValue var \<Rightarrow>
          (case cg_visit_VarNode an var of Inl e \<Rightarrow> Inl e | Inr u \<Rightarrow> Inr (u, g))
      | IntValue i \<Rightarrow>
          (let (temp, g1) = new_temp g in Inr (temp, emit (temp @ '' = '' @ str_int i) g1)))"

fun cg_visit_args ::
  "(nat \<rightharpoonup> symbol_info) \<Rightarrow> atom_node list \<Rightarrow> cg_state \<Rightarrow> cg_error + (string list \<times> cg_state)" where
  "cg_visit_args an [] g = Inr ([], g)"
| "cg_visit_args an (arg # args) g =
     (case cg_visit_AtomNode an arg g of
        Inl e \<Rightarrow> Inl e
      | Inr (p, g1) \<Rightarrow>
          (case cg_visit_args an args g1 of
             Inl e \<Rightarrow> Inl e
           | Inr (ps, g2) \<Rightarrow> Inr (p # ps, g2)))"

fun cg_visit_TermNode ::
  "(nat \<rightharpoonup> ty) \<Rightarrow> (nat \<rightharpoonup> symbol_info) \<Rightarrow> term_node \<Rightarrow> cg_state \<Rightarrow> cg_error + (string \<times> cg_state)"
and cg_visit_ParenTermNode ::
  "(nat \<rightharpoonup> ty) \<Rightarrow> (nat \<rightharpoonup> symbol_info) \<Rightarrow> op_node \<Rightarrow> cg_state \<Rightarrow> cg_error + (string \<times> cg_state)" where
  "cg_visit_TermNode nt an (TermAtom a) g = cg_visit_AtomNode an a g"
| "cg_visit_TermNode nt an (TermParen p) g = cg_visit_ParenTermNode nt an p g"
| "cg_visit_ParenTermNode nt an (UnaryOperationNode n operator operand) g =
     (case cg_visit_TermNode nt an operand g of
        Inl e \<Rightarrow> Inl e
      | Inr (operand_place, g1) \<Rightarrow>
          (let (result_place, g2) = new_temp g1 in
           if operator = ''neg'' then
             Inr (result_place, emit (result_place @ '' = - '' @ operand_place) g2)
           else if operator = ''not'' then Inl NotOutsideCondition
           else Inl (CgUnknownUnaryOperator operator)))"
| "cg_visit_ParenTermNode nt an (BinaryOperationNode n left_operand operator right_operand) g =
     (if nt n = Some Boolean \<and> operator \<in> set [''and'', ''or'']
      then Inl (LogicalOutsideCondition operator)
      else
        case cg_visit_TermNode nt an left_operand g of
          Inl e \<Rightarrow> Inl e
        | Inr (left_place, g1) \<Rightarrow>
            (case cg_visit_TermNode nt an right_operand g1 of
               Inl e \<Rightarrow> Inl e
             | Inr (right_place, g2) \<Rightarrow>
                 (let (result_place, g3) = new_temp g2 in
                  case map_of op_map operator of
                    Some op_symbol \<Rightarrow>
                      Inr (result_place,
                           emit (result_place @ '' = '' @ left_place @ '' '' @ op_symbol @ '' '' @ right_place) g3)
                  | None \<Rightarrow> Inl (MisplacedBinaryOperator operator))))"

definition cg_visit_FunctionCallNode ::
  "(nat \<rightharpoonup> symbol_info) \<Rightarrow> var_node \<Rightarrow> atom_node list \<Rightarrow> cg_state \<Rightarrow> cg_error + (string \<times> cg_state)" where
  "cg_visit_FunctionCallNode an nm arguments g =
     (case cg_visit_args an arguments g of
        Inl e \<Rightarrow> Inl e
      | Inr (arg_places, g1) \<Rightarrow>
          (case an (vid nm) of
             None \<Rightarrow> Inl (FunctionLacksAnnotation (vname nm))
           | Some info \<Rightarrow>
               if si_kind info \<noteq> Func then Inl (FunctionLacksAnnotation (vname nm))
               else
                 let call_args = join_str '', '' arg_places;
                     (result_place, g2) = new_temp g1
                 in Inr (result_place,
                         emit (result_place @ '' = CALL '' @ unique_name info @ ''('' @ call_args @ '')'') g2)))"

definition cg_visit_ProcedureCallNode ::
  "(nat \<rightharpoonup> symbol_info) \<Rightarrow> var_node \<Rightarrow> atom_node list \<Rightarrow> cg_state \<Rightarrow> cg_error + cg_state" where
  "cg_visit_ProcedureCallNode an nm arguments g =
     (case cg_visit_args an arguments g of
        Inl e \<Rightarrow> Inl e
      | Inr (arg_places, g1) \<Rightarrow>
          (case an (vid nm) of
             None \<Rightarrow> Inl (ProcedureLacksAnnotation (vname nm))
           | Some info \<Rightarrow>
               if si_kind info \<noteq> Proc then Inl (ProcedureLacksAnnotation (vname nm))
               else
                 let call_args = join_str '', '' arg_places;
                     (dummy_target, g2) = new_temp g1
                 in Inr (emit (dummy_target @ '' = CALL '' @ unique_name info @ ''('' @ call_args @ '')'') g2)))"

fun cg_visit_rhs ::
  "(nat \<rightharpoonup> ty) \<Rightarrow> (nat \<rightharpoonup> symbol_info) \<Rightarrow> rhs_node \<Rightarrow> cg_state \<Rightarrow> cg_error + (string \<times> cg_state)" where
  "cg_visit_rhs nt an (RhsAtom a) g = cg_visit_AtomNode an a g"
| "cg_visit_rhs nt an (FunctionCallNode n f args) g = cg_visit_FunctionCallNode an f args g"
| "cg_visit_rhs nt an (RhsParen p) g = cg_visit_ParenTermNode nt an p g"

definition cg_visit_AssignmentNode ::
  "(nat \<rightharpoonup> ty) \<Rightarrow> (nat \<rightharpoonup> symbol_info) \<Rightarrow> var_node \<Rightarrow> rhs_node \<Rightarrow> cg_state \<Rightarrow> cg_error + cg_state" where
  "cg_visit_AssignmentNode nt an var rhs g =
     (case cg_visit_rhs nt an rhs g of
        Inl e \<Rightarrow> Inl e
      | Inr (rhs_place, g1) \<Rightarrow>
          (case cg_visit_VarNode an var of
             Inl e \<Rightarrow> Inl e
           | Inr lhs_var_unique_name \<Rightarrow> Inr (emit (lhs_var_unique_name @ '' = '' @ rhs_place) g1)))"

definition cg_visit_PrintNode ::
  "(nat \<rightharpoonup> symbol_info) \<Rightarrow> print_output \<Rightarrow> cg_state \<Rightarrow> cg_error + cg_state" where
  "cg_visit_PrintNode an out g =
     (case out of
        OutString str \<Rightarrow> Inr (emit (''PRINT \"'' @ str @ ''\"'') g)
      | OutAtom a \<Rightarrow>
          (case cg_visit_AtomNode an a g of
             Inl e \<Rightarrow> Inl e
           | Inr (atom_place, g1) \<Rightarrow> Inr (emit (''PRINT '' @ atom_place) g1)))"

text \<open>
  \<open>_generate_conditional_jump\<close>. The recursive calls leave \<open>negate\<close> at its default.
\<close>

fun generate_conditional_jump ::
  "(nat \<rightharpoonup> ty) \<Rightarrow> (nat \<rightharpoonup> symbol_info) \<Rightarrow> term_node \<Rightarrow> string \<Rightarrow> string \<Rightarrow> bool \<Rightarrow> cg_state
     \<Rightarrow> cg_error + cg_state" where
  "generate_conditional_jump nt an (TermParen (UnaryOperationNode n operator operand)) lt lf negate g =
     (let label_true = (if negate then lf else lt);
          label_false = (if negate then lt else lf)
      in if operator = ''not''
         then generate_conditional_jump nt an operand label_false label_true False g
         else Inl UnexpectedNodeInCondition)"
| "generate_conditional_jump nt an (TermParen (BinaryOperationNode n left_operand operator right_operand)) lt lf negate g =
     (let label_true = (if negate then lf else lt);
          label_false = (if negate then lt else lf)
      in if operator = ''and'' then
           (let (label_second_cond, g1) = new_label g in
            case generate_conditional_jump nt an left_operand label_second_cond label_false False g1 of
              Inl e \<Rightarrow> Inl e
            | Inr g2 \<Rightarrow>
                generate_conditional_jump nt an right_operand label_true label_false False
                  (emit (''REM '' @ label_second_cond) g2))
         else if operator = ''or'' then
           (let (label_second_cond, g1) = new_label g in
            case generate_conditional_jump nt an left_operand label_true label_second_cond False g1 of
              Inl e \<Rightarrow> Inl e
            | Inr g2 \<Rightarrow>
                generate_conditional_jump nt an right_operand label_true label_false False
                  (emit (''REM '' @ label_second_cond) g2))
         else if operator \<in> set [''eq'', ''>''] then
           (case cg_visit_TermNode nt an left_operand g of
              Inl e \<Rightarrow> Inl e
            | Inr (left_place, g1) \<Rightarrow>
                (case cg_visit_TermNode nt an right_operand g1 of
                   Inl e \<Rightarrow> Inl e
                 | Inr (right_place, g2) \<Rightarrow>
                     (let op_symbol = (if operator = ''eq'' then ''='' else ''>'') in
                      Inr (emit (''IF '' @ left_place @ '' '' @ op_symbol @ '' '' @ right_place
                                 @ '' THEN '' @ label_true) g2))))
         else Inl (ArithmeticAsCondition operator))"
| "generate_conditional_jump nt an (TermAtom a) lt lf negate g =
     (let label_true = (if negate then lf else lt) in
      case cg_visit_AtomNode an a g of
        Inl e \<Rightarrow> Inl e
      | Inr (atom_place, g1) \<Rightarrow> Inr (emit (''IF '' @ atom_place @ '' > 0 THEN '' @ label_true) g1))"

fun cg_visit_instr ::
  "(nat \<rightharpoonup> ty) \<Rightarrow> (nat \<rightharpoonup> symbol_info) \<Rightarrow> instr \<Rightarrow> cg_state \<Rightarrow> cg_error + cg_state"
and cg_visit_AlgorithmNode ::
  "(nat \<rightharpoonup> ty) \<Rightarrow> (nat \<rightharpoonup> symbol_info) \<Rightarrow> instr list \<Rightarrow> cg_state \<Rightarrow> cg_error + cg_state" where
  "cg_visit_instr nt an HaltNode g = Inr (emit ''STOP'' g)"
| "cg_visit_instr nt an (PrintNode out) g = cg_visit_PrintNode an out g"
| "cg_visit_instr nt an (AssignmentNode var rhs) g = cg_visit_AssignmentNode nt an var rhs g"
| "cg_visit_instr nt an (ProcedureCallNode p args) g = cg_visit_ProcedureCallNode an p args g"
| "cg_visit_instr nt an (IfBranchNode condition then_branch else_branch) g =
     (let (label_then, g1) = new_label g;
          (label_else, g2) = (case else_branch of
                                None \<Rightarrow> (None, g1)
                              | Some eb \<Rightarrow> (let (l, g') = new_label g1 in (Some l, g')));
          (label_exit, g3) = new_label g2
      in case generate_conditional_jump nt an condition label_then
                (case label_else of Some l \<Rightarrow> l | None \<Rightarrow> label_exit) False g3 of
        Inl e \<Rightarrow> Inl e
      | Inr g4 \<Rightarrow>
          (case else_branch of
             Some eb \<Rightarrow>
               (case cg_visit_AlgorithmNode nt an eb g4 of
                  Inl e \<Rightarrow> Inl e
                | Inr g5 \<Rightarrow>
                    (case cg_visit_AlgorithmNode nt an then_branch
                            (emit (''REM '' @ label_then) (emit (''GOTO '' @ label_exit) g5)) of
                       Inl e \<Rightarrow> Inl e
                     | Inr g6 \<Rightarrow> Inr (emit (''REM '' @ label_exit) g6)))
           | None \<Rightarrow>
               (case cg_visit_AlgorithmNode nt an then_branch
                       (emit (''REM '' @ label_then) (emit (''GOTO '' @ label_exit) g4)) of
                  Inl e \<Rightarrow> Inl e
                | Inr g6 \<Rightarrow> Inr (emit (''REM '' @ label_exit) g6))))"
| "cg_visit_instr nt an (WhileLoopNode condition body) g =
     (let (label_cond, g1) = new_label g;
          (label_body, g2) = new_label g1;
          (label_exit, g3) = new_label g2
      in case generate_conditional_jump nt an condition label_body label_exit False
                (emit (''REM '' @ label_cond) g3) of
        Inl e \<Rightarrow> Inl e
      | Inr g4 \<Rightarrow>
          (case cg_visit_AlgorithmNode nt an body (emit (''REM '' @ label_body) g4) of
             Inl e \<Rightarrow> Inl e
           | Inr g5 \<Rightarrow> Inr (emit (''REM '' @ label_exit) (emit (''GOTO '' @ label_cond) g5))))"
| "cg_visit_instr nt an (DoUntilLoopNode body condition) g =
     (let (label_body, g1) = new_label g;
          (label_exit, g2) = new_label g1
      in case cg_visit_AlgorithmNode nt an body (emit (''REM '' @ label_body) g2) of
        Inl e \<Rightarrow> Inl e
      | Inr g3 \<Rightarrow>
          (case cg_visit_TermNode nt an condition g3 of
             Inl e \<Rightarrow> Inl e
           | Inr (cond_place, g4) \<Rightarrow>
               Inr (emit (''IF '' @ cond_place @ '' = 0 THEN '' @ label_body) g4)))"
| "cg_visit_AlgorithmNode nt an [] g = Inr g"
| "cg_visit_AlgorithmNode nt an (i # is) g =
     (case cg_visit_instr nt an i g of
        Inl e \<Rightarrow> Inl e
      | Inr g' \<Rightarrow> cg_visit_AlgorithmNode nt an is g')"

text \<open>
  \<open>generate\<close> resets the generator and lowers \<open>main\<close>; \<open>generate_state\<close> is the
  generator as \<open>generate\<close> leaves it, \<open>generate\<close> the list it returns. The generator is
  built from what the analyzer produced.
\<close>

definition generate_state :: "an_state \<Rightarrow> program \<Rightarrow> cg_error + cg_state" where
  "generate_state a ast =
     cg_visit_AlgorithmNode (node_types a) (annot a) (main_algorithm (prog_main ast)) CodeGenerator"

definition generate :: "an_state \<Rightarrow> program \<Rightarrow> cg_error + string list" where
  "generate a ast =
     (case generate_state a ast of Inl e \<Rightarrow> Inl e | Inr g \<Rightarrow> Inr (ir_code g))"

text \<open>The pipeline of the tests: analysis, then code generation from its result.\<close>

datatype compile_error = Semantic sem_error | CodeGen cg_error

definition compile :: "program \<Rightarrow> compile_error + string list" where
  "compile ast =
     (case analyze ast of
        Inl e \<Rightarrow> Inl (Semantic e)
      | Inr a \<Rightarrow> (case generate a ast of Inl e \<Rightarrow> Inl (CodeGen e) | Inr ir \<Rightarrow> Inr ir))"

section \<open>Inliner (inline.py)\<close>

subsection \<open>The regular expressions\<close>

text \<open>
  Each pattern of the source is applied with \<open>re.match\<close> and is anchored at both ends.
  \<open>$\<close> also matches just before a newline that ends the string, and no pattern can
  take that newline itself, so a line is matched after one final newline is removed
  (\<open>strip_eol\<close>). \<open>\d\<close> is a decimal digit and \<open>\w\<close> a letter, a digit or the
  underscore.
\<close>

definition newline :: char where
  "newline = CHR 0x0A"

definition strip_eol :: "string \<Rightarrow> string" where
  "strip_eol s = (if s \<noteq> [] \<and> last s = newline then butlast s else s)"

definition starts_with :: "string \<Rightarrow> string \<Rightarrow> bool" where
  "starts_with p s = (take (length p) s = p)"

definition is_word :: "char \<Rightarrow> bool" where
  "is_word c = (is_digit c \<or>
     c \<in> set ''abcdefghijklmnopqrstuvwxyzABCDEFGHIJKLMNOPQRSTUVWXYZ_'')"

definition is_space :: "char \<Rightarrow> bool" where
  "is_space c = (c \<in> set [CHR '' '', CHR 0x09, CHR 0x0A, CHR 0x0B, CHR 0x0C, CHR 0x0D,
                            CHR 0x1C, CHR 0x1D, CHR 0x1E, CHR 0x1F])"

text \<open>\<open>c\d+\<close> for a letter \<open>c\<close>: labels \<open>L\d+\<close>, temporaries \<open>t\d+\<close>, the tail \<open>_\d+\<close>.\<close>

definition lit_digits :: "char \<Rightarrow> string \<Rightarrow> bool" where
  "lit_digits c s = (case s of [] \<Rightarrow> False | x # ds \<Rightarrow> x = c \<and> ds \<noteq> [] \<and> list_all is_digit ds)"

definition is_label :: "string \<Rightarrow> bool" where
  "is_label s = lit_digits (CHR ''L'') s"

definition is_temp :: "string \<Rightarrow> bool" where
  "is_temp s = lit_digits (CHR ''t'') s"

text \<open>
  \<open>v_\w+_\d+\<close>: after \<open>v_\<close>, some split of the rest into a non-empty run of word
  characters and a tail \<open>_\d+\<close>.
\<close>

definition is_uname :: "string \<Rightarrow> bool" where
  "is_uname s =
     (starts_with ''v_'' s \<and>
      list_ex (\<lambda>k. let m = take k (drop 2 s); r = drop k (drop 2 s)
                   in m \<noteq> [] \<and> list_all is_word m \<and> lit_digits (CHR ''_'') r)
              [0..<length s])"

text \<open>\<open>(t\d+|v_\w+_\d+)\<close>\<close>

definition is_place :: "string \<Rightarrow> bool" where
  "is_place s = (is_temp s \<or> is_uname s)"

text \<open>\<open>^REM (L\d+)$\<close>, giving group 1.\<close>

definition rem_match :: "string \<Rightarrow> string option" where
  "rem_match line =
     (let s = strip_eol line in
      if starts_with ''REM '' s \<and> is_label (drop 4 s) then Some (drop 4 s) else None)"

text \<open>
  \<open>^(GOTO|IF .+ THEN) (L\d+)$\<close>, giving groups 1 and 2. A label holds no space, so
  group 2 is what follows the last space; \<open>.\<close> is any character but the newline.
\<close>

definition is_jump_command :: "string \<Rightarrow> bool" where
  "is_jump_command cmd =
     (cmd = ''GOTO'' \<or>
      (starts_with ''IF '' cmd \<and> 9 \<le> length cmd \<and> drop (length cmd - 5) cmd = '' THEN'' \<and>
       newline \<notin> set cmd))"

definition jump_match :: "string \<Rightarrow> (string \<times> string) option" where
  "jump_match line =
     (let s = strip_eol line;
          lab = rev (takeWhile (\<lambda>c. c \<noteq> CHR '' '') (rev s));
          front = rev (dropWhile (\<lambda>c. c \<noteq> CHR '' '') (rev s))
      in if front \<noteq> [] \<and> is_jump_command (butlast front) \<and> is_label lab
         then Some (butlast front, lab) else None)"

text \<open>\<open>^RETURN (t\d+|v_\w+_\d+)$\<close>, giving group 1.\<close>

definition return_match :: "string \<Rightarrow> string option" where
  "return_match line =
     (let s = strip_eol line in
      if starts_with ''RETURN '' s \<and> is_place (drop 7 s) then Some (drop 7 s) else None)"

text \<open>
  \<open>^(t\d+|v_\w+_\d+) = CALL (v_\w+_\d+)\(([^)]*)\)$\<close>, giving groups 1 to 3. Group 1
  holds no space and group 2 no parenthesis, so they end at the first space and at the
  first opening parenthesis.
\<close>

definition call_match :: "string \<Rightarrow> (string \<times> string \<times> string) option" where
  "call_match line =
     (let s = strip_eol line;
          target = takeWhile (\<lambda>c. c \<noteq> CHR '' '') s;
          r1 = dropWhile (\<lambda>c. c \<noteq> CHR '' '') s;
          r2 = drop 8 r1;
          fname = takeWhile (\<lambda>c. c \<noteq> CHR ''('') r2;
          r3 = dropWhile (\<lambda>c. c \<noteq> CHR ''('') r2;
          args = butlast (tl r3)
      in if is_place target \<and> starts_with '' = CALL '' r1 \<and> is_uname fname \<and>
            2 \<le> length r3 \<and> last r3 = CHR '')'' \<and> CHR '')'' \<notin> set args
         then Some (target, fname, args) else None)"

text \<open>\<open>^(v_\w+_\d+) = (t\d+)$\<close>, giving groups 1 and 2.\<close>

definition assignment_match :: "string \<Rightarrow> (string \<times> string) option" where
  "assignment_match line =
     (let s = strip_eol line;
          lhs = takeWhile (\<lambda>c. c \<noteq> CHR '' '') s;
          r1 = dropWhile (\<lambda>c. c \<noteq> CHR '' '') s
      in if is_uname lhs \<and> starts_with '' = '' r1 \<and> is_temp (drop 3 r1)
         then Some (lhs, drop 3 r1) else None)"

subsection \<open>String methods\<close>

fun split_on :: "char \<Rightarrow> string \<Rightarrow> string list" where
  "split_on c [] = [[]]"
| "split_on c (x # xs) =
     (if x = c then [] # split_on c xs
      else (x # hd (split_on c xs)) # tl (split_on c xs))"

definition strip :: "string \<Rightarrow> string" where
  "strip s = rev (dropWhile is_space (rev (dropWhile is_space s)))"

text \<open>\<open>[arg.strip() for arg in args_str.split(',') if arg.strip()]\<close>\<close>

definition parse_call_args :: "string \<Rightarrow> string list" where
  "parse_call_args args_str = filter (\<lambda>a. a \<noteq> []) (map strip (split_on (CHR '','') args_str))"

subsection \<open>The pass\<close>

record function_body_info =
  fb_name :: string
  fb_params :: "string list"
  body_ir :: "string list"

datatype inline_error = ArgumentCountMismatch string nat nat

text \<open>
  First pass of \<open>_make_labels_unique\<close>: the dictionary from each label that a
  \<open>REM\<close> line of the block defines to its renamed form.
\<close>

definition inline_suffix :: "nat \<Rightarrow> string" where
  "inline_suffix inline_id = ''_inline_'' @ str_nat inline_id"

fun collect_labels :: "nat \<Rightarrow> string list \<Rightarrow> (string \<rightharpoonup> string) \<Rightarrow> (string \<rightharpoonup> string)" where
  "collect_labels inline_id [] new_labels = new_labels"
| "collect_labels inline_id (line # lines) new_labels =
     (case rem_match line of
        Some original_label \<Rightarrow>
          collect_labels inline_id lines
            (if original_label \<in> dom new_labels then new_labels
             else new_labels(original_label \<mapsto> original_label @ inline_suffix inline_id))
      | None \<Rightarrow> collect_labels inline_id lines new_labels)"

definition get_label :: "(string \<rightharpoonup> string) \<Rightarrow> string \<Rightarrow> string" where
  "get_label new_labels original_label =
     (case new_labels original_label of Some l \<Rightarrow> l | None \<Rightarrow> original_label)"

definition relabel_line :: "(string \<rightharpoonup> string) \<Rightarrow> string \<Rightarrow> string" where
  "relabel_line new_labels line =
     (case rem_match line of
        Some original_label \<Rightarrow> ''REM '' @ get_label new_labels original_label
      | None \<Rightarrow>
          (case jump_match line of
             Some (command_part, original_label) \<Rightarrow>
               command_part @ '' '' @ get_label new_labels original_label
           | None \<Rightarrow> line))"

definition make_labels_unique :: "string list \<Rightarrow> nat \<Rightarrow> string list" where
  "make_labels_unique ir inline_id =
     map (relabel_line (collect_labels inline_id ir Map.empty)) ir"

text \<open>
  \<open>_adapt_body\<close>. A return target is used when it is neither \<open>None\<close> nor the empty
  string.
\<close>

definition adapt_line :: "string option \<Rightarrow> string \<Rightarrow> string list" where
  "adapt_line return_target line =
     (case return_match line of
        Some return_value_place \<Rightarrow>
          (case return_target of
             Some t \<Rightarrow> if t \<noteq> [] then [t @ '' = '' @ return_value_place] else []
           | None \<Rightarrow> [])
      | None \<Rightarrow> [line])"

definition adapt_body :: "string list \<Rightarrow> string option \<Rightarrow> nat \<Rightarrow> string list" where
  "adapt_body body return_target inline_id =
     concat (map (adapt_line return_target) (make_labels_unique body inline_id))"

definition has_return :: "string list \<Rightarrow> bool" where
  "has_return body = list_ex (\<lambda>line. starts_with ''RETURN'' (strip line)) body"

text \<open>
  The look-ahead of \<open>inline_calls\<close>: the return target and whether the next
  instruction is skipped, from the call's target, whether the callee has a
  \<open>RETURN\<close>, and the instructions after the call.
\<close>

definition return_plan :: "string \<Rightarrow> bool \<Rightarrow> string list \<Rightarrow> string option \<times> bool" where
  "return_plan call_target_temp is_function rest =
     (if is_function then
        (case rest of
           [] \<Rightarrow> (Some call_target_temp, False)
         | next_instruction # later \<Rightarrow>
             (case assignment_match next_instruction of
                Some (final_var, temp) \<Rightarrow>
                  if temp = call_target_temp then (Some final_var, True)
                  else (Some call_target_temp, False)
              | None \<Rightarrow> (Some call_target_temp, False)))
      else (None, False))"

text \<open>
  \<open>inline_calls\<close> from instruction \<open>i\<close> on, with the inline counter \<open>c\<close>: the
  instructions it appends to the output from there, and the counter at the end. An
  argument count mismatch raises, and the caller gets no output.
\<close>

function inline_calls_from ::
  "(string \<rightharpoonup> function_body_info) \<Rightarrow> nat \<Rightarrow> string list \<Rightarrow> inline_error + (string list \<times> nat)" where
  "inline_calls_from function_bodies c [] = Inr ([], c)"
| "inline_calls_from function_bodies c (instruction # rest) =
     (case call_match instruction of
        None \<Rightarrow>
          (case inline_calls_from function_bodies c rest of
             Inl e \<Rightarrow> Inl e
           | Inr (out, c') \<Rightarrow> Inr (instruction # out, c'))
      | Some (call_target_temp, callee_name, args_str) \<Rightarrow>
          (case function_bodies callee_name of
             None \<Rightarrow>
               (case inline_calls_from function_bodies c rest of
                  Inl e \<Rightarrow> Inl e
                | Inr (out, c') \<Rightarrow> Inr (instruction # out, c'))
           | Some callee_info \<Rightarrow>
               (let call_args = parse_call_args args_str;
                    (actual_return_target, skip_next_instruction) =
                       return_plan call_target_temp (has_return (body_ir callee_info)) rest;
                    inline_id = c + 1
                in if length call_args \<noteq> length (fb_params callee_info)
                   then Inl (ArgumentCountMismatch callee_name (length (fb_params callee_info))
                               (length call_args))
                   else
                     let param_assignments =
                           map (\<lambda>(p, arg). p @ '' = '' @ arg) (zip (fb_params callee_info) call_args);
                         adapted_body = adapt_body (body_ir callee_info) actual_return_target inline_id
                     in case inline_calls_from function_bodies inline_id
                               (if skip_next_instruction then tl rest else rest) of
                          Inl e \<Rightarrow> Inl e
                        | Inr (out, c') \<Rightarrow> Inr (param_assignments @ adapted_body @ out, c'))))"
  by pat_completeness auto
termination
  by (relation "measure (\<lambda>(fb, c, ir). length ir)") (auto simp: less_Suc_eq_le)


subsection \<open>One step of the pass\<close>

text \<open>
  The body of the loop of \<open>inline_calls\<close> for one instruction: the lines it appends,
  the counter after it, and the instructions left to process. \<open>prepend_out\<close> puts lines
  in front of the result of the rest of the pass.
\<close>

definition inline_head ::
  "(string \<rightharpoonup> function_body_info) \<Rightarrow> nat \<Rightarrow> string \<Rightarrow> string list
     \<Rightarrow> inline_error + (string list \<times> nat \<times> string list)" where
  "inline_head function_bodies c instruction rest =
     (case call_match instruction of
        None \<Rightarrow> Inr ([instruction], c, rest)
      | Some (call_target_temp, callee_name, args_str) \<Rightarrow>
          (case function_bodies callee_name of
             None \<Rightarrow> Inr ([instruction], c, rest)
           | Some callee_info \<Rightarrow>
               (let call_args = parse_call_args args_str;
                    plan = return_plan call_target_temp (has_return (body_ir callee_info)) rest
                in if length call_args \<noteq> length (fb_params callee_info)
                   then Inl (ArgumentCountMismatch callee_name (length (fb_params callee_info))
                               (length call_args))
                   else Inr (map (\<lambda>(p, arg). p @ '' = '' @ arg) (zip (fb_params callee_info) call_args)
                               @ adapt_body (body_ir callee_info) (fst plan) (c + 1),
                             c + 1,
                             if snd plan then tl rest else rest))))"

definition prepend_out ::
  "string list \<Rightarrow> inline_error + (string list \<times> nat) \<Rightarrow> inline_error + (string list \<times> nat)" where
  "prepend_out em r = (case r of Inl e \<Rightarrow> Inl e | Inr (out, c) \<Rightarrow> Inr (em @ out, c))"

section \<open>Programs used below\<close>

text \<open>
  \<open>if (x > 0) { x = 1 }\<close> in \<open>main\<close>, with \<open>x\<close> declared as a global or, when
  \<open>is_global\<close> is false, as a local of \<open>main\<close>.
\<close>

definition if_gt_program :: "bool \<Rightarrow> string \<Rightarrow> program" where
  "if_gt_program is_global x =
     \<lparr>prog_id = 1,
      prog_globals = (if is_global then [VarNode 2 x] else []),
      prog_procs = [], prog_funcs = [],
      prog_main = \<lparr>main_id = 3,
        main_locals = (if is_global then [] else [VarNode 2 x]),
        main_algorithm =
          [IfBranchNode
             (TermParen (BinaryOperationNode 4
                (TermAtom (AtomNode 5 (VarValue (VarNode 6 x)))) ''>''
                (TermAtom (AtomNode 7 (IntValue 0)))))
             [AssignmentNode (VarNode 8 x) (RhsAtom (AtomNode 9 (IntValue 1)))]
             None]\<rparr>\<rparr>"

text \<open>\<open>glob {x} ... main { var {} do { x = 1 } until (c) }\<close> for a condition \<open>c\<close>.\<close>

definition do_until_program :: "term_node \<Rightarrow> program" where
  "do_until_program c =
     \<lparr>prog_id = 1, prog_globals = [VarNode 2 ''x''], prog_procs = [], prog_funcs = [],
      prog_main = \<lparr>main_id = 3, main_locals = [],
        main_algorithm =
          [DoUntilLoopNode [AssignmentNode (VarNode 4 ''x'') (RhsAtom (AtomNode 5 (IntValue 1)))] c]\<rparr>\<rparr>"

definition x_gt :: "nat \<Rightarrow> int \<Rightarrow> term_node" where
  "x_gt n k =
     TermParen (BinaryOperationNode n
       (TermAtom (AtomNode (n + 1) (VarValue (VarNode (n + 2) ''x'')))) ''>''
       (TermAtom (AtomNode (n + 3) (IntValue k))))"

text \<open>\<open>((x > 0) and (x > 1))\<close> and \<open>(not (x > 0))\<close>\<close>

definition and_condition :: term_node where
  "and_condition = TermParen (BinaryOperationNode 10 (x_gt 20 0) ''and'' (x_gt 30 1))"

definition not_condition :: term_node where
  "not_condition = TermParen (UnaryOperationNode 10 ''not'' (x_gt 20 0))"

text \<open>\<open>glob {x} proc { pdef p() { local {} halt } } func {} main { var {} x = p }\<close>\<close>

definition proc_as_variable_program :: program where
  "proc_as_variable_program =
     \<lparr>prog_id = 1, prog_globals = [VarNode 2 ''x''],
      prog_procs = [\<lparr>proc_id = 3, proc_name = VarNode 4 ''p'', proc_params = [],
                     proc_locals = [], proc_algorithm = [HaltNode]\<rparr>],
      prog_funcs = [],
      prog_main = \<lparr>main_id = 5, main_locals = [],
        main_algorithm =
          [AssignmentNode (VarNode 6 ''x'') (RhsAtom (AtomNode 7 (VarValue (VarNode 8 ''p''))))]\<rparr>\<rparr>"

text \<open>The callee bodies of the inliner's tests, and a callee whose body returns a literal.\<close>

definition func_add_body :: function_body_info where
  "func_add_body =
     \<lparr>fb_name = ''v_add_1'', fb_params = [''v_a_2'', ''v_b_3''],
      body_ir = [''REM L1'', ''t1 = v_a_2 + v_b_3'', ''v_t_4 = t1'', ''RETURN v_t_4'', ''REM L2'']\<rparr>"

definition proc_print_val_body :: function_body_info where
  "proc_print_val_body =
     \<lparr>fb_name = ''v_print_val_5'', fb_params = [''v_x_6''], body_ir = [''PRINT v_x_6'']\<rparr>"

definition func_complex_body :: function_body_info where
  "func_complex_body =
     \<lparr>fb_name = ''v_complex_calc_10'', fb_params = [''v_x_11''],
      body_ir = [''v_y_12 = 10'', ''t10 = v_x_11'', ''t11 = 5'', ''IF t10 > t11 THEN L3'',
                 ''t12 = 0'', ''RETURN t12'', ''GOTO L4'', ''REM L3'', ''RETURN v_y_12'',
                 ''REM L4'']\<rparr>"

definition func_five_body :: function_body_info where
  "func_five_body = \<lparr>fb_name = ''v_five_20'', fb_params = [], body_ir = [''RETURN 5'']\<rparr>"

definition example_bodies :: "string \<rightharpoonup> function_body_info" where
  "example_bodies =
     [''v_add_1'' \<mapsto> func_add_body,
      ''v_print_val_5'' \<mapsto> proc_print_val_body,
      ''v_complex_calc_10'' \<mapsto> func_complex_body,
      ''v_five_20'' \<mapsto> func_five_body]"

text \<open>
  A body as the code generator lowers \<open>if (not (x > 0)) { x = 1 } else { y = 1 }\<close>:
  the jump goes to \<open>L2\<close>, which no \<open>REM\<close> line defines.
\<close>

definition dangling_body :: "string list" where
  "dangling_body = [''t1 = 0'', ''IF v_x_1 > t1 THEN L2'', ''t2 = 1'', ''v_y_1 = t2'', ''GOTO L3'',
                    ''REM L1'', ''t3 = 1'', ''v_x_1 = t3'', ''REM L3'']"

section \<open>Notions used to state the properties of the global phase\<close>











section \<open>Notions used to state the properties of the code generator\<close>

text \<open>
  \<open>extends g g'\<close>: the generator \<open>g'\<close> holds the code of \<open>g\<close> and possibly more after
  it; \<open>emitted g g'\<close> is that further code. \<open>label k\<close> is the \<open>k\<close>-th label, and
  \<open>with_labels k g\<close> is \<open>g\<close> after \<open>k\<close> calls of \<open>_new_label\<close>.
\<close>

definition extends :: "cg_state \<Rightarrow> cg_state \<Rightarrow> bool" where
  "extends g g' = (\<exists>xs. ir_code g' = ir_code g @ xs)"







section \<open>Properties of the text helpers\<close>

lemma digit_char_cases: "d < 10 \<Longrightarrow> d \<in> {0,1,2,3,4,5,6,7,8,9::nat}"
  by auto

lemma digit_char_is_digit: "d < 10 \<Longrightarrow> is_digit (digit_char d)"
  using digit_char_cases[of d] by (auto simp: is_digit_def digit_char_def)

lemma digit_val_digit_char: "d < 10 \<Longrightarrow> digit_val (digit_char d) = d"
  using digit_char_cases[of d] by (auto simp: digit_val_def digit_char_def)

lemma str_nat_digits: "\<forall>c \<in> set (str_nat n). is_digit c"
proof (induction n rule: str_nat.induct)
  case (1 n)
  show ?case
  proof (cases "n < 10")
    case True
    then show ?thesis by (simp add: str_nat.simps[of n] digit_char_is_digit)
  next
    case False
    then show ?thesis using 1 by (simp add: str_nat.simps[of n] digit_char_is_digit)
  qed
qed

lemma str_nat_nonempty: "str_nat n \<noteq> []"
  by (subst str_nat.simps) simp

lemma nat_of_digits_snoc: "nat_of_digits (ds @ [c]) = 10 * nat_of_digits ds + digit_val c"
  by (simp add: nat_of_digits_def)

lemma nat_of_digits_str_nat: "nat_of_digits (str_nat n) = n"
proof (induction n rule: str_nat.induct)
  case (1 n)
  show ?case
  proof (cases "n < 10")
    case True
    then show ?thesis by (simp add: str_nat.simps[of n] nat_of_digits_def digit_val_digit_char)
  next
    case False
    then show ?thesis using 1
      by (simp add: str_nat.simps[of n] nat_of_digits_snoc digit_val_digit_char)
  qed
qed

lemma str_nat_inj: "str_nat a = str_nat b \<Longrightarrow> a = b"
  by (metis nat_of_digits_str_nat)

lemma underscore_not_digit: "is_digit c \<Longrightarrow> c \<noteq> CHR ''_''"
  by (auto simp: is_digit_def)

lemma str_nat_no_underscore: "CHR ''_'' \<notin> set (str_nat n)"
  using str_nat_digits underscore_not_digit by blast

lemma split_last_sep:
  assumes "xs @ a # ys = xs' @ a # ys'" "a \<notin> set ys" "a \<notin> set ys'"
  shows "xs = xs' \<and> ys = ys'"
  using assms
  by (auto simp: append_eq_append_conv2 append_eq_Cons_conv Cons_eq_append_conv)

lemma mk_unique_inj:
  assumes "mk_unique p b c = mk_unique p b' c'"
  shows "b = b' \<and> c = c'"
proof -
  from assms have "b @ CHR ''_'' # str_nat c = b' @ CHR ''_'' # str_nat c'"
    by (simp add: mk_unique_def)
  then have "b = b' \<and> str_nat c = str_nat c'"
    by (rule split_last_sep) (rule str_nat_no_underscore)+
  then show ?thesis by (simp add: str_nat_inj)
qed

section \<open>Unique names\<close>

lemma enter_scope_keeps: "counter_of (enter_scope k n st) = counter_of st"
  "unique_prefix (enter_scope k n st) = unique_prefix st"
  by (auto simp: enter_scope_def counter_of_def fun_eq_iff)

lemma exit_scope_keeps:
  "exit_scope st = Inr st' \<Longrightarrow> counter_of st' = counter_of st \<and> unique_prefix st' = unique_prefix st"
  by (auto simp: exit_scope_def counter_of_def fun_eq_iff split: if_splits)

lemma declare_sym_name:
  assumes "declare_sym nm k dt nid st = Inr (info, st')"
  shows "unique_name info = mk_unique (unique_prefix st) nm (Suc (counter_of st nm))"
    and "unique_prefix st' = unique_prefix st"
    and "counter_of st' = (counter_of st)(nm := Suc (counter_of st nm))"
  using assms
  by (auto simp: declare_sym_def gen_unique_name_def counter_of_def Let_def fun_eq_iff
           split: if_splits)

lemma run_ops_fresh:
  "info \<in> set (run_ops st ops) \<Longrightarrow>
     \<exists>b c. unique_name info = mk_unique (unique_prefix st) b c \<and> counter_of st b < c"
proof (induction st ops rule: run_ops.induct)
  case (1 st)
  then show ?case by simp
next
  case (2 st k nid ops)
  then show ?case by (simp add: enter_scope_keeps)
next
  case (3 st ops)
  show ?case
  proof (cases "exit_scope st")
    case (Inl e)
    then show ?thesis using 3 by simp
  next
    case (Inr st')
    then show ?thesis using 3 exit_scope_keeps[OF Inr] by simp
  qed
next
  case (4 st nm k dt nid ops)
  show ?case
  proof (cases "declare_sym nm k dt nid st")
    case (Inl e)
    then show ?thesis using 4 by simp
  next
    case (Inr p)
    obtain i st' where p: "p = (i, st')" by (cases p)
    note d = declare_sym_name[OF Inr[unfolded p]]
    from 4(3) Inr p have "info = i \<or> info \<in> set (run_ops st' ops)" by simp
    then show ?thesis
    proof
      assume "info = i"
      then show ?thesis using d(1) by blast
    next
      assume "info \<in> set (run_ops st' ops)"
      from 4(2)[OF Inr p[symmetric] this] 
      obtain b c where "unique_name info = mk_unique (unique_prefix st') b c" "counter_of st' b < c"
        by blast
      then show ?thesis using d(2,3) by (auto split: if_splits intro: Suc_lessD)
    qed
  qed
qed

lemma run_ops_distinct: "distinct (map unique_name (run_ops st ops))"
proof (induction st ops rule: run_ops.induct)
  case (1 st)
  then show ?case by simp
next
  case (2 st k nid ops)
  then show ?case by simp
next
  case (3 st ops)
  then show ?case by (auto split: sum.splits)
next
  case (4 st nm k dt nid ops)
  show ?case
  proof (cases "declare_sym nm k dt nid st")
    case (Inl e)
    then show ?thesis using 4 by simp
  next
    case (Inr p)
    obtain i st' where p: "p = (i, st')" by (cases p)
    note d = declare_sym_name[OF Inr[unfolded p]]
    have "unique_name i \<notin> unique_name ` set (run_ops st' ops)"
    proof
      assume "unique_name i \<in> unique_name ` set (run_ops st' ops)"
      then obtain j where j: "j \<in> set (run_ops st' ops)" "unique_name j = unique_name i" by auto
      from run_ops_fresh[OF j(1)] obtain b c where
        bc: "unique_name j = mk_unique (unique_prefix st') b c" "counter_of st' b < c" by blast
      from bc(1) j(2) d(1,2) have "mk_unique (unique_prefix st) b c
          = mk_unique (unique_prefix st) nm (Suc (counter_of st nm))" by simp
      then have "b = nm \<and> c = Suc (counter_of st nm)" by (rule mk_unique_inj)
      with bc(2) d(3) show False by simp
    qed
    moreover have "distinct (map unique_name (run_ops st' ops))"
      using 4(2)[OF Inr p[symmetric]] .
    ultimately show ?thesis using Inr p by simp
  qed
qed

text \<open>
  C8. Whatever a client does with one table (any names, kinds and scopes, the same name
  declared again in another scope, failed operations in between), the \<open>unique_name\<close>
  fields of the records returned by the successful declarations are pairwise distinct.
\<close>

theorem unique_names_pairwise_distinct:
  "distinct (map unique_name (run_ops (SymbolTable pre) ops))"
  by (rule run_ops_distinct)

section \<open>Analysis and code generation on concrete programs\<close>

lemmas an_defs = compile_def analyze_def visit_program_def global_phase_def SemanticAnalyzer_def
  SymbolTable_def current_scope_level_def an_enter_scope_def an_exit_scope_def enter_scope_def exit_scope_def
  visit_variable_decls_def declare_procedures_def declare_functions_def an_declare_def
  declare_var_def declare_proc_def declare_func_def declare_param_def declare_sym_def gen_unique_name_def mk_unique_def
  check_no_global_name_clashes_def names_of_kind_def inter_list_def
  visit_main_prog_def visit_assignment_def visit_atom_def lookup_def set_node_type_def set_symbol_info_def
  check_binary_def check_unary_def check_condition_def visit_print_def

lemmas cg_defs = generate_def generate_state_def CodeGenerator_def new_temp_def new_label_def emit_def
  cg_visit_AtomNode_def cg_visit_VarNode_def cg_visit_AssignmentNode_def op_map_def str_int_def
  cg_visit_PrintNode_def

lemma str_nat_small: "str_nat 0 = ''0''" "str_nat (Suc 0) = ''1''" "str_nat (Suc (Suc 0)) = ''2''"
  "str_nat (Suc (Suc (Suc 0))) = ''3''"
  by (simp_all add: str_nat.simps digit_char_def)

text \<open>
  C9. For \<open>if (x > 0) { x = 1 }\<close> with \<open>x\<close> a declared numeric variable (a global
  or a local of \<open>main\<close>, of any name), analysis succeeds and the generated IR is exactly
  the seven lines below: the \<open>IF ... > ... THEN L1\<close> line, then \<open>GOTO L2\<close>, then
  \<open>REM L1\<close>, then the assignment to the unique name of \<open>x\<close>, and \<open>REM L2\<close> last.
\<close>

theorem if_then_ir_order:
  "compile (if_gt_program is_global x) =
     Inr [''t1 = 0'',
          ''IF '' @ mk_unique ''v'' x 1 @ '' > t1 THEN L1'',
          ''GOTO L2'',
          ''REM L1'',
          ''t2 = 1'',
          mk_unique ''v'' x 1 @ '' = t2'',
          ''REM L2'']"
  by (cases is_global) (simp_all add: if_gt_program_def an_defs cg_defs str_nat_small Let_def)

text \<open>
  C2. A do-until loop whose condition is a conjunction or a negation passes semantic
  analysis (\<open>compile\<close> reaches the code generator only then), and code generation
  raises: the condition is lowered by the expression visitors, which reject \<open>and\<close>,
  \<open>or\<close> and \<open>not\<close>. A plain comparison is lowered to a place and
  \<open>IF <place> = 0 THEN L1\<close>.
\<close>

theorem do_until_logical_condition_raises:
  "compile (do_until_program and_condition) = Inl (CodeGen (LogicalOutsideCondition ''and'')) \<and>
   compile (do_until_program not_condition) = Inl (CodeGen NotOutsideCondition) \<and>
   compile (do_until_program (x_gt 20 0)) =
     Inr [''REM L1'', ''t1 = 1'', ''v_x_1 = t1'', ''t2 = 0'', ''t3 = v_x_1 > t2'', ''IF t3 = 0 THEN L1'']"
  by code_simp

text \<open>
  C4. A variable reference that names a procedure is accepted: \<open>x = p\<close> with \<open>p\<close> a
  procedure passes semantic analysis, and the generated IR copies the procedure's
  unique name into \<open>x\<close>.
\<close>

theorem procedure_name_as_variable_accepted:
  "compile proc_as_variable_program = Inr [''v_x_1 = v_p_1'']"
  by code_simp

section \<open>The inliner's patterns and its loop\<close>

lemma starts_with_iff: "starts_with p s \<longleftrightarrow> (\<exists>r. s = p @ r)"
  unfolding starts_with_def
  by (metis append_eq_conv_conj append_take_drop_id)

lemma starts_with_append [simp]: "starts_with p (p @ r)"
  by (simp add: starts_with_iff)

lemma lit_digits_iff: "lit_digits c s \<longleftrightarrow> (\<exists>ds. s = c # ds \<and> ds \<noteq> [] \<and> list_all is_digit ds)"
  by (cases s) (auto simp: lit_digits_def)

lemma digit_is_word: "is_digit c \<Longrightarrow> is_word c"
  by (simp add: is_word_def)

lemma digits_are_words: "list_all is_digit ds \<Longrightarrow> list_all is_word ds"
  by (auto simp: list_all_iff digit_is_word)

lemma word_chars: "is_word (CHR ''t'')" "is_word (CHR ''v'')" "is_word (CHR ''_'')" "is_word (CHR ''L'')"
  "\<not> is_word (CHR '' '')" "\<not> is_word (CHR ''('')" "\<not> is_word (CHR '')'')" "\<not> is_word newline"
  "\<not> is_word (CHR '','')" "\<not> is_word (CHR ''='')"
  by (simp_all add: is_word_def is_digit_def newline_def)

lemma is_temp_word: "is_temp s \<Longrightarrow> list_all is_word s"
  by (auto simp: is_temp_def lit_digits_iff word_chars digits_are_words)

lemma is_label_word: "is_label s \<Longrightarrow> list_all is_word s"
  by (auto simp: is_label_def lit_digits_iff word_chars digits_are_words)

lemma is_uname_parts:
  assumes "is_uname s"
  shows "\<exists>m ds. s = ''v_'' @ m @ CHR ''_'' # ds \<and> m \<noteq> [] \<and> list_all is_word m \<and> ds \<noteq> [] \<and> list_all is_digit ds"
proof -
  from assms have "starts_with ''v_'' s" unfolding is_uname_def by blast
  then obtain r where r: "s = ''v_'' @ r" unfolding starts_with_iff by blast
  then have d: "drop 2 s = r" by simp
  from assms obtain k where k: "take k r \<noteq> []" "list_all is_word (take k r)"
      "lit_digits (CHR ''_'') (drop k r)"
    unfolding is_uname_def list_ex_iff Let_def d by blast
  from k(3) obtain ds where ds: "drop k r = CHR ''_'' # ds" "ds \<noteq> []" "list_all is_digit ds"
    unfolding lit_digits_iff by blast
  have "r = take k r @ drop k r" by simp
  with ds(1) have "r = take k r @ CHR ''_'' # ds" by simp
  with r have "s = ''v_'' @ take k r @ CHR ''_'' # ds" by simp
  with k ds show ?thesis by blast
qed

lemma is_uname_word: "is_uname s \<Longrightarrow> list_all is_word s"
proof -
  assume "is_uname s"
  from is_uname_parts[OF this] obtain m ds where
    p: "s = ''v_'' @ m @ CHR ''_'' # ds" "list_all is_word m" "list_all is_digit ds" by blast
  then show ?thesis by (simp add: word_chars digits_are_words)
qed

lemma is_place_word: "is_place s \<Longrightarrow> list_all is_word s"
  by (auto simp: is_place_def is_temp_word is_uname_word)



lemma call_not_assignment:
  assumes "call_match l = Some (t, f, a)"
  shows "assignment_match l = None"
proof -
  let ?r1 = "dropWhile (\<lambda>c. c \<noteq> CHR '' '') (strip_eol l)"
  from assms have "starts_with '' = CALL '' ?r1"
    by (auto simp: call_match_def Let_def split: if_splits)
  then obtain r where "?r1 = '' = CALL '' @ r" unfolding starts_with_iff by blast
  then have "drop 3 ?r1 = ''CALL '' @ r" by simp
  then have "\<not> is_temp (drop 3 ?r1)"
    by (simp add: is_temp_def lit_digits_iff)
  then show ?thesis by (simp add: assignment_match_def Let_def)
qed


lemma inline_step:
  "inline_calls_from fb c (i # rest) =
     (case inline_head fb c i rest of
        Inl e \<Rightarrow> Inl e
      | Inr (em, c1, rest') \<Rightarrow> prepend_out em (inline_calls_from fb c1 rest'))"
proof (cases "call_match i")
  case None
  then show ?thesis by (simp add: inline_head_def prepend_out_def split: sum.splits)
next
  case (Some m)
  obtain t f a where m: "m = (t, f, a)" by (cases m)
  show ?thesis
  proof (cases "fb f")
    case None
    then show ?thesis using Some m
      by (simp add: inline_head_def prepend_out_def split: sum.splits)
  next
    case (Some info)
    obtain rt sk where p: "return_plan t (has_return (body_ir info)) rest = (rt, sk)"
      by (cases "return_plan t (has_return (body_ir info)) rest")
    show ?thesis
      using \<open>call_match i = Some m\<close> m Some p
      by (simp add: inline_head_def prepend_out_def Let_def split: sum.splits)
  qed
qed

declare inline_calls_from.simps(2) [simp del]

lemma return_plan_append:
  "assignment_match x = None \<Longrightarrow> return_plan t h (pre @ x # post) = return_plan t h pre"
  by (cases pre) (simp_all add: return_plan_def)

lemma return_plan_tl:
  "snd (return_plan t h pre) \<Longrightarrow> tl (pre @ x # post) = tl pre @ x # post"
  by (cases pre) (simp_all add: return_plan_def split: if_splits)

lemma inline_head_append:
  assumes "assignment_match x = None"
  shows "inline_head fb c i (pre @ x # post) =
     (case inline_head fb c i pre of
        Inl e \<Rightarrow> Inl e
      | Inr (em, c1, r) \<Rightarrow> Inr (em, c1, r @ x # post))"
proof (cases "call_match i")
  case None
  then show ?thesis by (simp add: inline_head_def)
next
  case (Some m)
  obtain t f a where m: "m = (t, f, a)" by (cases m)
  show ?thesis
  proof (cases "fb f")
    case None
    then show ?thesis using Some m by (simp add: inline_head_def)
  next
    case (Some info)
    show ?thesis
      using \<open>call_match i = Some m\<close> m Some
      by (simp add: inline_head_def Let_def return_plan_append[OF assms] return_plan_tl)
  qed
qed

lemma inline_head_rest:
  "inline_head fb c i rest = Inr (em, c1, r) \<Longrightarrow> length r \<le> length rest"
  by (cases "call_match i")
     (auto simp: inline_head_def Let_def split: option.splits if_splits)

lemma prepend_out_assoc: "prepend_out a (prepend_out b r) = prepend_out (a @ b) r"
  by (auto simp: prepend_out_def split: sum.splits)

lemma inline_append:
  assumes "assignment_match x = None"
  shows "inline_calls_from fb c (pre @ x # post) =
     (case inline_calls_from fb c pre of
        Inl e \<Rightarrow> Inl e
      | Inr (o1, c1) \<Rightarrow> prepend_out o1 (inline_calls_from fb c1 (x # post)))"
proof (induction pre arbitrary: c rule: length_induct)
  case (1 pre)
  show ?case
  proof (cases pre)
    case Nil
    then show ?thesis by (auto simp: prepend_out_def split: sum.splits)
  next
    case (Cons i rest)
    have L: "inline_calls_from fb c (pre @ x # post) =
       (case inline_head fb c i rest of
          Inl e \<Rightarrow> Inl e
        | Inr (em, c1, r) \<Rightarrow> prepend_out em (inline_calls_from fb c1 (r @ x # post)))"
      using Cons
      by (simp add: inline_step[of fb c i "rest @ x # post"] inline_head_append[OF assms]
               split: sum.splits)
    have R: "inline_calls_from fb c pre =
       (case inline_head fb c i rest of
          Inl e \<Rightarrow> Inl e
        | Inr (em, c1, r) \<Rightarrow> prepend_out em (inline_calls_from fb c1 r))"
      using Cons by (simp add: inline_step[of fb c i rest])
    show ?thesis
    proof (cases "inline_head fb c i rest")
      case (Inl e)
      then show ?thesis unfolding L R by simp
    next
      case (Inr t)
      obtain em c1 r where t: "t = (em, c1, r)" by (cases t)
      from inline_head_rest[OF Inr[unfolded t]] Cons have "length r < length pre" by simp
      with 1 have ih: "inline_calls_from fb c1 (r @ x # post) =
         (case inline_calls_from fb c1 r of
            Inl e \<Rightarrow> Inl e
          | Inr (o1, c2) \<Rightarrow> prepend_out o1 (inline_calls_from fb c2 (x # post)))" by blast
      show ?thesis unfolding L R Inr t
        by (simp add: ih prepend_out_def split: sum.splits prod.splits)
    qed
  qed
qed


lemma rem_match_Some:
  "rem_match l = Some lab \<Longrightarrow> strip_eol l = ''REM '' @ lab \<and> is_label lab"
  by (auto simp: rem_match_def Let_def starts_with_iff split: if_splits)

lemma return_match_Some:
  "return_match l = Some p \<Longrightarrow> strip_eol l = ''RETURN '' @ p \<and> is_place p"
  by (auto simp: return_match_def Let_def starts_with_iff split: if_splits)

lemma split_last_space:
  assumes "rev (dropWhile (\<lambda>c. c \<noteq> CHR '' '') (rev s)) \<noteq> []"
  shows "s = butlast (rev (dropWhile (\<lambda>c. c \<noteq> CHR '' '') (rev s))) @ CHR '' '' #
             rev (takeWhile (\<lambda>c. c \<noteq> CHR '' '') (rev s))"
proof -
  let ?P = "\<lambda>c. c \<noteq> CHR '' ''"
  let ?d = "dropWhile ?P (rev s)"
  let ?t = "takeWhile ?P (rev s)"
  from assms have ne: "?d \<noteq> []" by simp
  then have "\<not> ?P (hd ?d)" by (rule hd_dropWhile)
  then have h: "hd ?d = CHR '' ''" by simp
  have "last (rev ?d) = hd ?d" using ne by (simp add: last_rev)
  with h have "rev ?d = butlast (rev ?d) @ [CHR '' '']"
    using ne by (metis append_butlast_last_id rev_is_Nil_conv)
  moreover have "s = rev ?d @ rev ?t"
    by (metis rev_append rev_rev_ident takeWhile_dropWhile_id)
  ultimately show ?thesis by (metis append.assoc append_Cons append_Nil)
qed

lemma jump_match_Some:
  assumes "jump_match l = Some (cmd, lab)"
  shows "strip_eol l = cmd @ CHR '' '' # lab" "is_jump_command cmd" "is_label lab"
proof -
  let ?s = "strip_eol l"
  let ?f = "rev (dropWhile (\<lambda>c. c \<noteq> CHR '' '') (rev ?s))"
  from assms have f: "?f \<noteq> []" and c: "cmd = butlast ?f"
    and lab: "lab = rev (takeWhile (\<lambda>c. c \<noteq> CHR '' '') (rev ?s))"
    and j: "is_jump_command cmd" and il: "is_label lab"
    by (auto simp: jump_match_def Let_def split: if_splits)
  from split_last_space[OF f] c lab show "strip_eol l = cmd @ CHR '' '' # lab" by simp
  show "is_jump_command cmd" by (rule j)
  show "is_label lab" by (rule il)
qed

lemma jump_command_hd: "is_jump_command cmd \<Longrightarrow> \<exists>r. cmd = CHR ''G'' # r \<or> cmd = CHR ''I'' # r"
  by (auto simp: is_jump_command_def starts_with_iff)

lemma jump_not_rem: "jump_match l = Some (cmd, lab) \<Longrightarrow> rem_match l = None"
  using jump_match_Some(1,2)[of l cmd lab] jump_command_hd[of cmd]
  by (auto simp: rem_match_def Let_def starts_with_iff)



lemma label_last_not_newline: "is_label lab \<Longrightarrow> strip_eol (pre @ lab) = pre @ lab"
proof -
  assume "is_label lab"
  then obtain ds where d: "lab = CHR ''L'' # ds" "ds \<noteq> []" "list_all is_digit ds"
    by (auto simp: is_label_def lit_digits_iff)
  then have "is_digit (last ds)" by (simp add: list_all_iff)
  then have "last ds \<noteq> newline" by (auto simp: is_digit_def newline_def)
  with d show ?thesis by (simp add: strip_eol_def)
qed

lemma hd_strip_eol: "2 \<le> length s \<Longrightarrow> hd (strip_eol s) = hd s"
  by (cases s) (auto simp: strip_eol_def)

lemma return_match_hd: "return_match s = Some p \<Longrightarrow> hd (strip_eol s) = CHR ''R''"
  by (auto dest: return_match_Some)

lemma relabelled_jump_not_return:
  assumes "is_jump_command cmd"
  shows "return_match (cmd @ CHR '' '' # rest) = None"
proof (rule ccontr)
  assume "return_match (cmd @ CHR '' '' # rest) \<noteq> None"
  then obtain p where "return_match (cmd @ CHR '' '' # rest) = Some p" by auto
  then have "hd (strip_eol (cmd @ CHR '' '' # rest)) = CHR ''R''" by (rule return_match_hd)
  moreover from jump_command_hd[OF assms] obtain r where r: "cmd = CHR ''G'' # r \<or> cmd = CHR ''I'' # r"
    by blast
  then have "2 \<le> length (cmd @ CHR '' '' # rest)" by auto
  then have "hd (strip_eol (cmd @ CHR '' '' # rest)) = hd (cmd @ CHR '' '' # rest)"
    by (rule hd_strip_eol)
  ultimately show False using r by auto
qed

section \<open>Label renaming and return rewriting\<close>

lemma collect_labels_eq:
  "collect_labels k body m l =
     (case m l of
        Some v \<Rightarrow> Some v
      | None \<Rightarrow> if l \<in> set (List.map_filter rem_match body) then Some (l @ inline_suffix k) else None)"
proof (induction body arbitrary: m)
  case Nil
  then show ?case by (simp add: List.map_filter_simps split: option.splits)
next
  case (Cons line body)
  show ?case
  proof (cases "rem_match line")
    case None
    then show ?thesis using Cons by (simp add: List.map_filter_simps)
  next
    case (Some lab)
    then show ?thesis using Cons
      by (auto simp: List.map_filter_simps dom_def split: option.splits)
  qed
qed

lemma get_label_collect:
  "get_label (collect_labels k body Map.empty) l =
     (if l \<in> set (List.map_filter rem_match body) then l @ inline_suffix k else l)"
  by (simp add: get_label_def collect_labels_eq)

lemma make_labels_unique_nth:
  "i < length body \<Longrightarrow>
   make_labels_unique body k ! i = relabel_line (collect_labels k body Map.empty) (body ! i)"
  by (simp add: make_labels_unique_def)

lemma length_make_labels_unique [simp]: "length (make_labels_unique body k) = length body"
  by (simp add: make_labels_unique_def)

lemma adapt_line_jump:
  "is_jump_command cmd \<Longrightarrow> adapt_line rt (cmd @ CHR '' '' # rest) = [cmd @ CHR '' '' # rest]"
  by (simp add: adapt_line_def relabelled_jump_not_return)

text \<open>
  C10. A label that a \<open>GOTO\<close> or \<open>IF ... THEN\<close> line of a callee body refers to,
  and that no \<open>REM L<n>\<close> line of that body defines, gets no suffix: the line of
  the renamed copy at that position is the jump with the label as it was, whatever the
  inline id \<open>k\<close>, the return rewriting keeps that line, and it is in the inlined copy.
\<close>

theorem undefined_label_copied_unchanged:
  assumes "i < length body"
    and "jump_match (body ! i) = Some (cmd, lab)"
    and "lab \<notin> set (List.map_filter rem_match body)"
  shows "strip_eol (body ! i) = cmd @ '' '' @ lab \<and>
         make_labels_unique body k ! i = cmd @ '' '' @ lab \<and>
         adapt_line rt (make_labels_unique body k ! i) = [cmd @ '' '' @ lab] \<and>
         cmd @ '' '' @ lab \<in> set (adapt_body body rt k)"
proof -
  note j = jump_match_Some[OF assms(2)]
  have m: "make_labels_unique body k ! i = cmd @ '' '' @ lab"
    using assms by (simp add: make_labels_unique_nth relabel_line_def jump_not_rem get_label_collect)
  have a: "adapt_line rt (cmd @ '' '' @ lab) = [cmd @ '' '' @ lab]"
    using adapt_line_jump[OF j(2)] by simp
  have "make_labels_unique body k ! i \<in> set (make_labels_unique body k)"
    using assms(1) by simp
  then have "cmd @ '' '' @ lab \<in> set (adapt_body body rt k)"
    unfolding adapt_body_def m using a by (force simp: m)
  with j(1) m a show ?thesis by simp
qed

theorem undefined_label_copied_unchanged_witness:
  "(1::nat) < length dangling_body \<and>
   jump_match (dangling_body ! 1) = Some (''IF v_x_1 > t1 THEN'', ''L2'') \<and>
   ''L2'' \<notin> set (List.map_filter rem_match dangling_body) \<and>
   make_labels_unique dangling_body 1 ! 1 = ''IF v_x_1 > t1 THEN L2'' \<and>
   make_labels_unique dangling_body 2 ! 1 = ''IF v_x_1 > t1 THEN L2'' \<and>
   ''IF v_x_1 > t1 THEN L2'' \<in> set (adapt_body dangling_body (Some ''v_r_9'') 2)"
proof -
  have h1: "(1::nat) < length dangling_body" by (simp add: dangling_body_def)
  have h2: "jump_match (dangling_body ! 1) = Some (''IF v_x_1 > t1 THEN'', ''L2'')" by code_simp
  have h3: "''L2'' \<notin> set (List.map_filter rem_match dangling_body)" by code_simp
  show ?thesis
    using undefined_label_copied_unchanged[OF h1 h2 h3, of 1 None]
          undefined_label_copied_unchanged[OF h1 h2 h3, of 2 "Some ''v_r_9''"] h1 h2 h3
    by simp
qed

text \<open>
  C7. A call whose callee is not in the registry is appended to the output unchanged,
  right after the output for the instructions before it, the counter is left as it is,
  and the pass goes on with the instructions after it. (When the pass raises on
  another call there is no output; both sides are then the same error.)
\<close>

theorem unknown_callee_kept:
  assumes "call_match instruction = Some (target, name, args)"
    and "function_bodies name = None"
  shows "inline_calls_from function_bodies c (pre @ instruction # post) =
     (case inline_calls_from function_bodies c pre of
        Inl e \<Rightarrow> Inl e
      | Inr (out1, c1) \<Rightarrow>
          prepend_out (out1 @ [instruction]) (inline_calls_from function_bodies c1 post))"
proof -
  have "\<And>c1. inline_calls_from function_bodies c1 (instruction # post) =
      prepend_out [instruction] (inline_calls_from function_bodies c1 post)"
    using assms by (simp add: inline_step inline_head_def)
  then show ?thesis
    by (simp add: inline_append[OF call_not_assignment[OF assms(1)]] prepend_out_assoc
             split: sum.splits)
qed

theorem unknown_callee_kept_witness:
  "call_match ''t9 = CALL v_undefined_func_99(1)'' = Some (''t9'', ''v_undefined_func_99'', ''1'') \<and>
   example_bodies ''v_undefined_func_99'' = None \<and>
   inline_calls_from example_bodies 0
     ([''t3 = CALL v_print_val_5(v_val_10)''] @ ''t9 = CALL v_undefined_func_99(1)'' #
      [''v_res_17 = t9'', ''STOP'']) =
   Inr ([''v_x_6 = v_val_10'', ''PRINT v_x_6'', ''t9 = CALL v_undefined_func_99(1)'',
         ''v_res_17 = t9'', ''STOP''], 1)"
proof -
  have h1: "call_match ''t9 = CALL v_undefined_func_99(1)'' = Some (''t9'', ''v_undefined_func_99'', ''1'')"
    by code_simp
  have h2: "example_bodies ''v_undefined_func_99'' = None" by code_simp
  have r: "(case inline_calls_from example_bodies 0 [''t3 = CALL v_print_val_5(v_val_10)''] of
        Inl e \<Rightarrow> Inl e
      | Inr (out1, c1) \<Rightarrow>
          prepend_out (out1 @ [''t9 = CALL v_undefined_func_99(1)''])
            (inline_calls_from example_bodies c1 [''v_res_17 = t9'', ''STOP''])) =
     Inr ([''v_x_6 = v_val_10'', ''PRINT v_x_6'', ''t9 = CALL v_undefined_func_99(1)'',
         ''v_res_17 = t9'', ''STOP''], 1)"
    by code_simp
  show ?thesis
    using unknown_callee_kept[where function_bodies = example_bodies and c = 0
            and pre = "[''t3 = CALL v_print_val_5(v_val_10)'']"
            and post = "[''v_res_17 = t9'', ''STOP'']", OF h1 h2] h1 h2 r
    by simp
qed











section \<open>The global phase of the analysis\<close>















section \<open>The code generator only appends\<close>

lemma extends_refl [simp]: "extends g g"
  by (simp add: extends_def)




lemma extends_new_temp: "new_temp g = (t, g1) \<Longrightarrow> extends g1 g' \<Longrightarrow> extends g g'"
  by (auto simp: extends_def new_temp_def)

lemma extends_new_label: "new_label g = (l, g1) \<Longrightarrow> extends g1 g' \<Longrightarrow> extends g g'"
  by (auto simp: extends_def new_label_def)

























end
